theory Spec2Isabelle
  imports Complex_Main
begin

section \<open>Values, errors and the numpy operations the estimator uses\<close>

text \<open>
  The module \<^verbatim>\<open>carl/ratios/cc.py\<close> holds two classes: \<^verbatim>\<open>WrapAsClassifier\<close>, which
  presents a regressor as a two-class classifier, and \<^verbatim>\<open>CalibratedClassifierRatio\<close>,
  which fits an ensemble of classifiers with a pair of calibrators each and averages their
  ratio estimates.

  An exception is a value of \<open>error\<close>; a call that can raise returns \<open>error + 'a\<close>
  (\<open>Inl\<close> the exception). A method that mutates its object returns an \<open>outcome\<close>: the
  object as the call leaves it, together with the exception if one was raised.

  Sample matrices, label vectors and the outputs of regressors and classifiers are real
  numbers (rounding is not modelled). The densities of the calibrators and the ratio
  arithmetic of \<^verbatim>\<open>predict\<close> range over \<open>npfloat\<close>, the reals extended with the
  values \<^verbatim>\<open>inf\<close>, \<^verbatim>\<open>-inf\<close> and \<^verbatim>\<open>nan\<close> that numpy returns (without raising) for
  a division by zero and for the logarithm of zero; zero carries no sign.
\<close>

datatype error = ValueError | TypeError | IndexError | AttributeError

datatype 'a outcome = Raised error 'a | Returned 'a

type_synonym vector = "real list"
type_synonym matrix = "real list list"
type_synonym labels = "int list"

datatype npfloat = Fin real | PInf | NInf | NaN

fun np_neg :: "npfloat \<Rightarrow> npfloat" where
  "np_neg (Fin a) = Fin (- a)"
| "np_neg PInf = NInf"
| "np_neg NInf = PInf"
| "np_neg NaN = NaN"

fun np_add :: "npfloat \<Rightarrow> npfloat \<Rightarrow> npfloat" where
  "np_add NaN b = NaN"
| "np_add a NaN = NaN"
| "np_add (Fin a) (Fin b) = Fin (a + b)"
| "np_add PInf NInf = NaN"
| "np_add NInf PInf = NaN"
| "np_add PInf b = PInf"
| "np_add NInf b = NInf"
| "np_add (Fin a) b = b"

fun np_div :: "npfloat \<Rightarrow> npfloat \<Rightarrow> npfloat" where
  "np_div NaN b = NaN"
| "np_div a NaN = NaN"
| "np_div (Fin a) (Fin b) =
     (if b = 0 then (if a = 0 then NaN else if 0 < a then PInf else NInf)
      else Fin (a / b))"
| "np_div (Fin a) b = Fin 0"
| "np_div PInf (Fin b) = (if b < 0 then NInf else PInf)"
| "np_div NInf (Fin b) = (if b < 0 then PInf else NInf)"
| "np_div a b = NaN"

text \<open>\<^verbatim>\<open>np.log\<close> and \<^verbatim>\<open>np.exp\<close>; the code does not call them, the contract of a
  calibrator (\<^verbatim>\<open>nnlf(x) = -log(pdf(x))\<close>) is stated with them.\<close>

fun np_log :: "npfloat \<Rightarrow> npfloat" where
  "np_log (Fin a) = (if 0 < a then Fin (ln a) else if a = 0 then NInf else NaN)"
| "np_log PInf = PInf"
| "np_log NInf = NaN"
| "np_log NaN = NaN"

fun np_exp :: "npfloat \<Rightarrow> npfloat" where
  "np_exp (Fin a) = Fin (exp a)"
| "np_exp PInf = PInf"
| "np_exp NInf = Fin 0"
| "np_exp NaN = NaN"

text \<open>\<^verbatim>\<open>np.clip(p, lo, hi)\<close> on one value.\<close>

definition np_clip :: "real \<Rightarrow> real \<Rightarrow> real \<Rightarrow> real" where
  "np_clip p lo hi = min (max p lo) hi"

text \<open>\<^verbatim>\<open>np.zeros(n, dtype=np.int)\<close>: a negative length raises.\<close>

definition np_zeros :: "int \<Rightarrow> error + labels" where
  "np_zeros n = (if n < 0 then Inl ValueError else Inr (replicate (nat n) 0))"

text \<open>\<^verbatim>\<open>y[k:] = v\<close> for a start \<open>k \<ge> 0\<close> (the only starts \<^verbatim>\<open>fit\<close> passes once
  \<^verbatim>\<open>np.zeros\<close> has returned).\<close>

definition assign_from :: "int \<Rightarrow> int \<Rightarrow> labels \<Rightarrow> labels" where
  "assign_from k v ys = take (nat k) ys @ replicate (length ys - nat k) v"

text \<open>\<^verbatim>\<open>np.vstack((A, B))\<close>: the rows of both blocks, which must agree on their width.\<close>

definition np_vstack :: "matrix \<Rightarrow> matrix \<Rightarrow> error + matrix" where
  "np_vstack A B =
     (if list_all (\<lambda>row. length row = length (hd (A @ B))) (A @ B) then Inr (A @ B)
      else Inl ValueError)"

text \<open>\<^verbatim>\<open>X[train]\<close>, indexing by an array of row numbers, and \<^verbatim>\<open>X[y == 0]\<close>, indexing
  by a boolean mask, which must be as long as the array.\<close>

definition fancy_index :: "'a list \<Rightarrow> nat list \<Rightarrow> error + 'a list" where
  "fancy_index xs idx =
     (if list_all (\<lambda>i. i < length xs) idx then Inr (map (\<lambda>i. xs ! i) idx)
      else Inl IndexError)"

definition boolean_index :: "'a list \<Rightarrow> bool list \<Rightarrow> error + 'a list" where
  "boolean_index xs msk =
     (if length msk = length xs then Inr (map fst (filter snd (zip xs msk)))
      else Inl IndexError)"

text \<open>\<^verbatim>\<open>P[:, 0]\<close> and \<^verbatim>\<open>v.reshape(-1, 1)\<close>.\<close>

definition column0 :: "matrix \<Rightarrow> error + vector" where
  "column0 P = (if list_all (\<lambda>row. 0 < length row) P then Inr (map hd P) else Inl IndexError)"

definition reshape_col :: "vector \<Rightarrow> matrix" where
  "reshape_col v = map (\<lambda>s. [s]) v"

text \<open>\<^verbatim>\<open>probas[:, j] = v\<close>: one value per row, or a single value broadcast to every row.\<close>

definition set_column :: "nat \<Rightarrow> vector \<Rightarrow> matrix \<Rightarrow> error + matrix" where
  "set_column j v M =
     (if length v = length M then Inr (map (\<lambda>(row, x). row[j := x]) (zip M v))
      else if length v = 1 then Inr (map (\<lambda>row. row[j := hd v]) M)
      else Inl ValueError)"

text \<open>An elementwise operation on two one-dimensional arrays, and the in-place
  \<^verbatim>\<open>r += v\<close>, with numpy's broadcasting of a one-element array.\<close>

definition broadcast2 ::
  "(npfloat \<Rightarrow> npfloat \<Rightarrow> npfloat) \<Rightarrow> npfloat list \<Rightarrow> npfloat list \<Rightarrow> error + npfloat list"
where
  "broadcast2 f a b =
     (if length a = length b then Inr (map (\<lambda>(x, y). f x y) (zip a b))
      else if length a = 1 then Inr (map (\<lambda>y. f (hd a) y) b)
      else if length b = 1 then Inr (map (\<lambda>x. f x (hd b)) a)
      else Inl ValueError)"

definition iadd :: "npfloat list \<Rightarrow> npfloat list \<Rightarrow> error + npfloat list" where
  "iadd r v =
     (if length v = length r then Inr (map (\<lambda>(x, y). np_add x y) (zip r v))
      else if length v = 1 then Inr (map (\<lambda>x. np_add x (hd v)) r)
      else Inl ValueError)"

text \<open>The arithmetic mean as numpy computes it (\<^verbatim>\<open>np.mean\<close>): the sum from zero,
  divided by the count. The code does not call it; what \<^verbatim>\<open>predict\<close> returns is
  compared with it.\<close>

definition arith_mean :: "npfloat list \<Rightarrow> npfloat" where
  "arith_mean xs = np_div (foldl np_add (Fin 0) xs) (Fin (real (length xs)))"

subsection \<open>scikit-learn's input validation and label encoding\<close>

text \<open>\<^verbatim>\<open>check_array\<close> and \<^verbatim>\<open>check_X_y\<close>, with the checks a real matrix and a label
  vector can fail: at least one sample, at least one feature, as many labels as samples.
  \<^verbatim>\<open>LabelEncoder\<close>: the classes are the sorted distinct labels, a label is encoded as its
  position among them.\<close>

definition check_array :: "matrix \<Rightarrow> error + matrix" where
  "check_array X = (if X = [] \<or> [] \<in> set X then Inl ValueError else Inr X)"

definition check_X_y :: "matrix \<Rightarrow> labels \<Rightarrow> error + (matrix \<times> labels)" where
  "check_X_y X y =
     (case check_array X of
        Inl e \<Rightarrow> Inl e
      | Inr X' \<Rightarrow> if length X' = length y then Inr (X', y) else Inl ValueError)"

definition label_classes :: "labels \<Rightarrow> int list" where
  "label_classes y = sort (remdups y)"

definition label_transform :: "int list \<Rightarrow> labels \<Rightarrow> vector" where
  "label_transform classes y = map (\<lambda>v. real (length (filter (\<lambda>c. c < v) classes))) y"

section \<open>The collaborators\<close>

text \<open>
  The classifiers (\<open>'c\<close>), regressors (\<open>'r\<close>), calibrators (\<open>'k\<close>), fold splitters
  (\<open>'cv\<close>) and distributions (\<open>'d\<close>) are objects of other modules; the estimator only
  calls the methods below. \<open>cv_split\<close> is \<^verbatim>\<open>check_cv(cv, y, classifier=True).split(X, y)\<close>.
\<close>

datatype 'cv cv_param = CvName string | CvOther 'cv

datatype 'k calibration_param = CalibrationName string | CalibrationTemplate 'k

record ('c, 'r, 'k, 'cv, 'd) collaborators =
  clf_clone :: "'c \<Rightarrow> 'c"
  clf_fit :: "'c \<Rightarrow> matrix \<Rightarrow> labels \<Rightarrow> error + 'c"
  clf_predict_proba :: "'c \<Rightarrow> matrix \<Rightarrow> error + matrix"
  reg_clone :: "'r \<Rightarrow> 'r"
  reg_fit :: "'r \<Rightarrow> matrix \<Rightarrow> vector \<Rightarrow> error + 'r"
  reg_predict :: "'r \<Rightarrow> matrix \<Rightarrow> error + vector"
  new_KernelDensity :: "'k"
  new_Histogram :: "nat \<Rightarrow> (real \<times> real) list \<Rightarrow> 'k"
  cal_clone :: "'k \<Rightarrow> 'k"
  cal_fit :: "'k \<Rightarrow> matrix \<Rightarrow> error + 'k"
  cal_pdf :: "'k \<Rightarrow> matrix \<Rightarrow> error + npfloat list"
  cal_nnlf :: "'k \<Rightarrow> matrix \<Rightarrow> error + npfloat list"
  cv_split :: "'cv cv_param \<Rightarrow> matrix \<Rightarrow> labels \<Rightarrow> error + (nat list \<times> nat list) list"
  rvs :: "'d \<Rightarrow> int \<Rightarrow> error + matrix"

section \<open>WrapAsClassifier\<close>

text \<open>The fitted attributes \<^verbatim>\<open>classes_\<close> and \<^verbatim>\<open>regressor_\<close> do not exist before
  \<^verbatim>\<open>fit\<close> sets them: \<open>None\<close>.\<close>

record 'r WrapAsClassifier =
  regressor :: 'r
  classes_' :: "int list option"
  regressor_' :: "'r option"

definition WrapAsClassifier_init :: "'r \<Rightarrow> 'r WrapAsClassifier" where
  "WrapAsClassifier_init r = \<lparr>regressor = r, classes_' = None, regressor_' = None\<rparr>"

definition WrapAsClassifier_fit ::
  "('c, 'r, 'k, 'cv, 'd) collaborators \<Rightarrow> 'r WrapAsClassifier \<Rightarrow> matrix \<Rightarrow> labels
     \<Rightarrow> 'r WrapAsClassifier outcome"
where
  "WrapAsClassifier_fit env self X y =
     (case check_X_y X y of
        Inl e \<Rightarrow> Raised e self
      | Inr (X1, y1) \<Rightarrow>
          let classes = label_classes y1;
              y2 = label_transform classes y1
          in if length classes = 2
             then let self1 = self\<lparr>classes_' := Some classes\<rparr>
                  in (case reg_fit env (reg_clone env (regressor self)) X1 y2 of
                        Inl e \<Rightarrow> Raised e self1
                      | Inr r \<Rightarrow> Returned (self1\<lparr>regressor_' := Some r\<rparr>))
             else Raised ValueError self)"

definition WrapAsClassifier_predict_proba ::
  "('c, 'r, 'k, 'cv, 'd) collaborators \<Rightarrow> 'r WrapAsClassifier \<Rightarrow> matrix \<Rightarrow> error + matrix"
where
  "WrapAsClassifier_predict_proba env self X =
     (case check_array X of
        Inl e \<Rightarrow> Inl e
      | Inr X1 \<Rightarrow>
          (case regressor_' self of
             None \<Rightarrow> Inl AttributeError
           | Some r \<Rightarrow>
               (case reg_predict env r X1 of
                  Inl e \<Rightarrow> Inl e
                | Inr p0 \<Rightarrow>
                    let p = map (\<lambda>v. np_clip v 0 1) p0;
                        probas = replicate (length X1) [0, 0]
                    in (case set_column 0 (map (\<lambda>v. 1 - v) p) probas of
                          Inl e \<Rightarrow> Inl e
                        | Inr probas1 \<Rightarrow> set_column 1 p probas1))))"

section \<open>CalibratedClassifierRatio\<close>

text \<open>A classifier of the ensemble is a classifier of the caller's or a wrapped regressor;
  the configured base estimator is a regressor (an instance of \<^verbatim>\<open>RegressorMixin\<close>) or a
  classifier.\<close>

datatype ('c, 'r) classifier = Plain 'c | Wrapped "'r WrapAsClassifier"

datatype ('c, 'r) estimator = Regressor 'r | Classifier "('c, 'r) classifier"

record ('c, 'r, 'k, 'cv) CalibratedClassifierRatio =
  base_estimator :: "('c, 'r) estimator"
  calibration :: "'k calibration_param"
  cv :: "'cv cv_param"
  decompose :: bool
  classifiers_' :: "('c, 'r) classifier list option"
  calibrators_' :: "('k \<times> 'k) list option"

text \<open>\<^verbatim>\<open>clone(classifier)\<close>, \<^verbatim>\<open>classifier.fit(X, y)\<close> and
  \<^verbatim>\<open>classifier.predict_proba(X)\<close>, dispatched on the object. Cloning a wrapper builds a
  new wrapper around a clone of its regressor, without the fitted attributes.\<close>

fun classifier_clone ::
  "('c, 'r, 'k, 'cv, 'd) collaborators \<Rightarrow> ('c, 'r) classifier \<Rightarrow> ('c, 'r) classifier"
where
  "classifier_clone env (Plain c) = Plain (clf_clone env c)"
| "classifier_clone env (Wrapped w) = Wrapped (WrapAsClassifier_init (reg_clone env (regressor w)))"

fun classifier_fit ::
  "('c, 'r, 'k, 'cv, 'd) collaborators \<Rightarrow> ('c, 'r) classifier \<Rightarrow> matrix \<Rightarrow> labels
     \<Rightarrow> error + ('c, 'r) classifier"
where
  "classifier_fit env (Plain c) X y =
     (case clf_fit env c X y of Inl e \<Rightarrow> Inl e | Inr c1 \<Rightarrow> Inr (Plain c1))"
| "classifier_fit env (Wrapped w) X y =
     (case WrapAsClassifier_fit env w X y of
        Raised e w1 \<Rightarrow> Inl e
      | Returned w1 \<Rightarrow> Inr (Wrapped w1))"

fun classifier_predict_proba ::
  "('c, 'r, 'k, 'cv, 'd) collaborators \<Rightarrow> ('c, 'r) classifier \<Rightarrow> matrix \<Rightarrow> error + matrix"
where
  "classifier_predict_proba env (Plain c) X = clf_predict_proba env c X"
| "classifier_predict_proba env (Wrapped w) X = WrapAsClassifier_predict_proba env w X"

text \<open>\<^verbatim>\<open>_check_calibration\<close>. A string other than the two names reaches
  \<^verbatim>\<open>clone\<close>, which refuses what is not an estimator.\<close>

definition check_calibration ::
  "('c, 'r, 'k, 'cv, 'd) collaborators \<Rightarrow> ('c, 'r, 'k, 'cv) CalibratedClassifierRatio
     \<Rightarrow> error + ('k \<times> 'k)"
where
  "check_calibration env self =
     (case calibration self of
        CalibrationName s \<Rightarrow>
          if s = ''kde'' then Inr (new_KernelDensity env, new_KernelDensity env)
          else if s = ''histogram''
          then Inr (new_Histogram env 100 [(0, 1)], new_Histogram env 100 [(0, 1)])
          else Inl TypeError
      | CalibrationTemplate k \<Rightarrow> Inr (cal_clone env k, cal_clone env k))"

text \<open>Lines 89 to 98 of \<^verbatim>\<open>fit\<close>: the sample set, given or drawn. \<open>complete_args\<close>
  is the disjunction of the two conditions that line 89 and lines 91 and 92 test; line 98
  is reached when it is false.\<close>

definition complete_args ::
  "matrix option \<Rightarrow> labels option \<Rightarrow> 'd option \<Rightarrow> 'd option \<Rightarrow> int option \<Rightarrow> bool"
where
  "complete_args X y numerator denominator n_samples =
     ((X \<noteq> None \<and> y \<noteq> None) \<or>
      (numerator \<noteq> None \<and> denominator \<noteq> None \<and> n_samples \<noteq> None))"

definition draw_samples ::
  "('c, 'r, 'k, 'cv, 'd) collaborators \<Rightarrow> 'd \<Rightarrow> 'd \<Rightarrow> int \<Rightarrow> error + (matrix \<times> labels)"
where
  "draw_samples env numerator denominator n_samples =
     (case rvs env numerator (n_samples div 2) of
        Inl e \<Rightarrow> Inl e
      | Inr A \<Rightarrow>
          (case rvs env denominator (n_samples div 2) of
             Inl e \<Rightarrow> Inl e
           | Inr B \<Rightarrow>
               (case np_vstack A B of
                  Inl e \<Rightarrow> Inl e
                | Inr X \<Rightarrow>
                    (case np_zeros n_samples of
                       Inl e \<Rightarrow> Inl e
                     | Inr y \<Rightarrow> Inr (X, assign_from (n_samples div 2) 1 y)))))"

fun fit_inputs ::
  "('c, 'r, 'k, 'cv, 'd) collaborators \<Rightarrow> matrix option \<Rightarrow> labels option \<Rightarrow> 'd option
     \<Rightarrow> 'd option \<Rightarrow> int option \<Rightarrow> error + (matrix \<times> labels)"
where
  "fit_inputs env (Some X) (Some y) numerator denominator n_samples = Inr (X, y)"
| "fit_inputs env X y (Some numerator) (Some denominator) (Some n_samples) =
     draw_samples env numerator denominator n_samples"
| "fit_inputs env X y numerator denominator n_samples = Inl ValueError"

text \<open>Lines 111 to 114 and 129 to 132: the scores of the numerator-labelled and of the
  denominator-labelled rows, and the two calibrators fitted on them.\<close>

definition class_scores ::
  "('c, 'r, 'k, 'cv, 'd) collaborators \<Rightarrow> ('c, 'r) classifier \<Rightarrow> matrix \<Rightarrow> labels \<Rightarrow> int
     \<Rightarrow> error + vector"
where
  "class_scores env classifier X y label =
     (case boolean_index X (map (\<lambda>l. l = label) y) of
        Inl e \<Rightarrow> Inl e
      | Inr Xl \<Rightarrow>
          (case classifier_predict_proba env classifier Xl of
             Inl e \<Rightarrow> Inl e
           | Inr P \<Rightarrow> column0 P))"

definition calibrate_pair ::
  "('c, 'r, 'k, 'cv, 'd) collaborators \<Rightarrow> ('c, 'r) classifier \<Rightarrow> 'k \<Rightarrow> 'k \<Rightarrow> matrix
     \<Rightarrow> labels \<Rightarrow> error + ('k \<times> 'k)"
where
  "calibrate_pair env classifier calibrator_num calibrator_den X y =
     (case class_scores env classifier X y 0 of
        Inl e \<Rightarrow> Inl e
      | Inr X_num \<Rightarrow>
          (case class_scores env classifier X y 1 of
             Inl e \<Rightarrow> Inl e
           | Inr X_den \<Rightarrow>
               (case cal_fit env calibrator_num (reshape_col X_num) of
                  Inl e \<Rightarrow> Inl e
                | Inr cn \<Rightarrow>
                    (case cal_fit env calibrator_den (reshape_col X_den) of
                       Inl e \<Rightarrow> Inl e
                     | Inr cd \<Rightarrow> Inr (cn, cd)))))"

text \<open>Lines 116 and 117, 134 and 135: the two \<^verbatim>\<open>append\<close> calls.\<close>

definition append_entry ::
  "('c, 'r, 'k, 'cv) CalibratedClassifierRatio \<Rightarrow> ('c, 'r) classifier \<Rightarrow> 'k \<times> 'k
     \<Rightarrow> ('c, 'r, 'k, 'cv) CalibratedClassifierRatio"
where
  "append_entry self classifier pair =
     self\<lparr>classifiers_' := map_option (\<lambda>l. l @ [classifier]) (classifiers_' self),
          calibrators_' := map_option (\<lambda>l. l @ [pair]) (calibrators_' self)\<rparr>"

text \<open>The branch \<^verbatim>\<open>cv == "prefit"\<close>.\<close>

definition fit_prefit ::
  "('c, 'r, 'k, 'cv, 'd) collaborators \<Rightarrow> ('c, 'r, 'k, 'cv) CalibratedClassifierRatio
     \<Rightarrow> ('c, 'r) classifier \<Rightarrow> matrix \<Rightarrow> labels
     \<Rightarrow> ('c, 'r, 'k, 'cv) CalibratedClassifierRatio outcome"
where
  "fit_prefit env self classifier X y =
     (case check_calibration env self of
        Inl e \<Rightarrow> Raised e self
      | Inr (calibrator_num, calibrator_den) \<Rightarrow>
          (case calibrate_pair env classifier calibrator_num calibrator_den X y of
             Inl e \<Rightarrow> Raised e self
           | Inr pair \<Rightarrow> Returned (append_entry self classifier pair)))"

text \<open>One pass of the loop over the folds, and the loop.\<close>

definition fit_fold ::
  "('c, 'r, 'k, 'cv, 'd) collaborators \<Rightarrow> ('c, 'r, 'k, 'cv) CalibratedClassifierRatio
     \<Rightarrow> ('c, 'r) classifier \<Rightarrow> matrix \<Rightarrow> labels \<Rightarrow> nat list \<Rightarrow> nat list
     \<Rightarrow> error + ('c, 'r, 'k, 'cv) CalibratedClassifierRatio"
where
  "fit_fold env self base X y train calibrate =
     (case fancy_index X train of
        Inl e \<Rightarrow> Inl e
      | Inr X_train \<Rightarrow>
      (case fancy_index y train of
        Inl e \<Rightarrow> Inl e
      | Inr y_train \<Rightarrow>
      (case classifier_fit env (classifier_clone env base) X_train y_train of
        Inl e \<Rightarrow> Inl e
      | Inr classifier \<Rightarrow>
      (case check_calibration env self of
        Inl e \<Rightarrow> Inl e
      | Inr (calibrator_num, calibrator_den) \<Rightarrow>
      (case fancy_index X calibrate of
        Inl e \<Rightarrow> Inl e
      | Inr X_cal \<Rightarrow>
      (case fancy_index y calibrate of
        Inl e \<Rightarrow> Inl e
      | Inr y_cal \<Rightarrow>
      (case calibrate_pair env classifier calibrator_num calibrator_den X_cal y_cal of
        Inl e \<Rightarrow> Inl e
      | Inr pair \<Rightarrow> Inr (append_entry self classifier pair))))))))"

fun fit_folds ::
  "('c, 'r, 'k, 'cv, 'd) collaborators \<Rightarrow> ('c, 'r, 'k, 'cv) CalibratedClassifierRatio
     \<Rightarrow> ('c, 'r) classifier \<Rightarrow> matrix \<Rightarrow> labels \<Rightarrow> (nat list \<times> nat list) list
     \<Rightarrow> ('c, 'r, 'k, 'cv) CalibratedClassifierRatio outcome"
where
  "fit_folds env self base X y [] = Returned self"
| "fit_folds env self base X y ((train, calibrate) # rest) =
     (case fit_fold env self base X y train calibrate of
        Inl e \<Rightarrow> Raised e self
      | Inr self1 \<Rightarrow> fit_folds env self1 base X y rest)"

text \<open>Lines 103 to 105: a regressor is wrapped, by a wrapper that has not been fitted.\<close>

fun resolve_base :: "('c, 'r) estimator \<Rightarrow> ('c, 'r) classifier" where
  "resolve_base (Regressor r) = Wrapped (WrapAsClassifier_init r)"
| "resolve_base (Classifier c) = c"

definition fit ::
  "('c, 'r, 'k, 'cv, 'd) collaborators \<Rightarrow> ('c, 'r, 'k, 'cv) CalibratedClassifierRatio
     \<Rightarrow> matrix option \<Rightarrow> labels option \<Rightarrow> 'd option \<Rightarrow> 'd option \<Rightarrow> int option
     \<Rightarrow> ('c, 'r, 'k, 'cv) CalibratedClassifierRatio outcome"
where
  "fit env self X y numerator denominator n_samples =
     (case fit_inputs env X y numerator denominator n_samples of
        Inl e \<Rightarrow> Raised e self
      | Inr (X1, y1) \<Rightarrow>
          let self1 = self\<lparr>classifiers_' := Some [], calibrators_' := Some []\<rparr>;
              base = resolve_base (base_estimator self)
          in if cv self = CvName ''prefit'' then fit_prefit env self1 base X1 y1
             else (case cv_split env (cv self) X1 y1 of
                     Inl e \<Rightarrow> Raised e self1
                   | Inr folds \<Rightarrow> fit_folds env self1 base X1 y1 folds))"

text \<open>\<^verbatim>\<open>predict\<close>: lines 145 to 150 give the contribution of one entry, the loop adds
  the contributions into \<^verbatim>\<open>r\<close>, line 152 divides by the number of classifiers.\<close>

definition contribution ::
  "('c, 'r, 'k, 'cv, 'd) collaborators \<Rightarrow> bool \<Rightarrow> matrix \<Rightarrow> ('c, 'r) classifier \<times> 'k \<times> 'k
     \<Rightarrow> error + npfloat list"
where
  "contribution env log' X entry =
     (case entry of (classifier, calibrator_num, calibrator_den) \<Rightarrow>
      (case classifier_predict_proba env classifier X of
        Inl e \<Rightarrow> Inl e
      | Inr P \<Rightarrow>
      (case column0 P of
        Inl e \<Rightarrow> Inl e
      | Inr p0 \<Rightarrow>
          let p = reshape_col p0
          in if log'
             then (case cal_nnlf env calibrator_num p of
                     Inl e \<Rightarrow> Inl e
                   | Inr a \<Rightarrow>
                       (case cal_nnlf env calibrator_den p of
                          Inl e \<Rightarrow> Inl e
                        | Inr b \<Rightarrow> broadcast2 np_add (map np_neg a) b))
             else (case cal_pdf env calibrator_num p of
                     Inl e \<Rightarrow> Inl e
                   | Inr a \<Rightarrow>
                       (case cal_pdf env calibrator_den p of
                          Inl e \<Rightarrow> Inl e
                        | Inr b \<Rightarrow> broadcast2 np_div a b)))))"

fun predict_loop ::
  "('c, 'r, 'k, 'cv, 'd) collaborators \<Rightarrow> bool \<Rightarrow> matrix \<Rightarrow> npfloat list
     \<Rightarrow> (('c, 'r) classifier \<times> 'k \<times> 'k) list \<Rightarrow> error + npfloat list"
where
  "predict_loop env log' X r [] = Inr r"
| "predict_loop env log' X r (entry # entries) =
     (case contribution env log' X entry of
        Inl e \<Rightarrow> Inl e
      | Inr v \<Rightarrow>
          (case iadd r v of
             Inl e \<Rightarrow> Inl e
           | Inr r1 \<Rightarrow> predict_loop env log' X r1 entries))"

definition predict ::
  "('c, 'r, 'k, 'cv, 'd) collaborators \<Rightarrow> ('c, 'r, 'k, 'cv) CalibratedClassifierRatio
     \<Rightarrow> matrix \<Rightarrow> bool \<Rightarrow> error + npfloat list"
where
  "predict env self X log' =
     (case classifiers_' self of
        None \<Rightarrow> Inl AttributeError
      | Some classifiers \<Rightarrow>
          (case calibrators_' self of
             None \<Rightarrow> Inl AttributeError
           | Some calibrators \<Rightarrow>
               (case predict_loop env log' X (replicate (length X) (Fin 0))
                       (zip classifiers calibrators) of
                  Inl e \<Rightarrow> Inl e
                | Inr r \<Rightarrow>
                    Inr (map (\<lambda>v. np_div v (Fin (real (length classifiers)))) r))))"

section \<open>A small set of collaborators, to run the estimator on concrete inputs\<close>

text \<open>
  A classifier that learns the number of its training rows, refuses a training set with
  fewer than two classes and scores every row one half; a regressor that answers with the
  sum of a row's features; a calibrator that stores its scores and whose density is their
  number; a splitter that is the list of its folds; a distribution that is a point mass.
\<close>

definition demo_env ::
  "(nat, nat, vector option, (nat list \<times> nat list) list, real) collaborators"
where
  "demo_env =
     \<lparr>clf_clone = (\<lambda>c. 0),
      clf_fit = (\<lambda>c X y. if length (remdups y) < 2 then Inl ValueError else Inr (length X)),
      clf_predict_proba =
        (\<lambda>c X. if c = 0 then Inl AttributeError else Inr (map (\<lambda>row. [1 / 2, 1 / 2]) X)),
      reg_clone = (\<lambda>r. 0),
      reg_fit = (\<lambda>r X y. Inr (length X)),
      reg_predict = (\<lambda>r X. Inr (map sum_list X)),
      new_KernelDensity = None,
      new_Histogram = (\<lambda>bins range. None),
      cal_clone = (\<lambda>k. None),
      cal_fit = (\<lambda>k M. if M = [] then Inl ValueError else Inr (Some (concat M))),
      cal_pdf =
        (\<lambda>k M. case k of
                  None \<Rightarrow> Inl AttributeError
                | Some s \<Rightarrow> Inr (map (\<lambda>row. Fin (real (length s))) M)),
      cal_nnlf =
        (\<lambda>k M. case k of
                  None \<Rightarrow> Inl AttributeError
                | Some s \<Rightarrow> Inr (map (\<lambda>row. np_neg (np_log (Fin (real (length s))))) M)),
      cv_split =
        (\<lambda>c X y. case c of
                    CvName s \<Rightarrow> Inl ValueError
                  | CvOther folds \<Rightarrow> if length X = length y then Inr folds else Inl ValueError),
      rvs = (\<lambda>d k. if k < 0 then Inl ValueError else Inr (replicate (nat k) [d]))\<rparr>"

definition demo_wrapper :: "nat WrapAsClassifier" where
  "demo_wrapper = \<lparr>regressor = 0, classes_' = Some [0, 1], regressor_' = Some 2\<rparr>"

text \<open>An estimator that has not been fitted, with the histogram calibration.\<close>

definition demo_ratio ::
  "(nat, nat) estimator \<Rightarrow> (nat list \<times> nat list) list cv_param
     \<Rightarrow> (nat, nat, vector option, (nat list \<times> nat list) list) CalibratedClassifierRatio"
where
  "demo_ratio b c =
     \<lparr>base_estimator = b, calibration = CalibrationName ''histogram'', cv = c,
      decompose = False, classifiers_' = None, calibrators_' = None\<rparr>"

text \<open>The ensemble that \<^verbatim>\<open>fit\<close> builds from six labelled rows and two folds (the first
  calibrates on two numerator rows and one denominator row, the second on one and two),
  and the one-entry ensemble of its first fold.\<close>

definition demo_fitted ::
  "(nat, nat, vector option, (nat list \<times> nat list) list) CalibratedClassifierRatio"
where
  "demo_fitted =
     (demo_ratio (Classifier (Plain 3)) (CvOther [([0, 1], [2, 3, 4]), ([0, 1], [3, 4, 5])]))
       \<lparr>classifiers_' := Some [Plain 2, Plain 2],
        calibrators_' :=
          Some [(Some [1 / 2, 1 / 2], Some [1 / 2]), (Some [1 / 2], Some [1 / 2, 1 / 2])]\<rparr>"

definition demo_single ::
  "(nat, nat, vector option, (nat list \<times> nat list) list) CalibratedClassifierRatio"
where
  "demo_single =
     (demo_ratio (Classifier (Plain 3)) (CvOther [([0, 1], [2, 3, 4])]))
       \<lparr>classifiers_' := Some [Plain 2],
        calibrators_' := Some [(Some [1 / 2, 1 / 2], Some [1 / 2])]\<rparr>"

section \<open>Properties of WrapAsClassifier\<close>

lemma check_array_Inr: "check_array X = Inr X1 \<Longrightarrow> X1 = X \<and> X \<noteq> []"
  by (auto simp: check_array_def split: if_splits)

lemma set_column_Inr:
  assumes "set_column j v M = Inr M1"
  shows "length M1 = length M \<and> (length v = length M \<or> length v = 1) \<and>
         (\<forall>i<length M. M1 ! i = (M ! i)[j := v ! (if length v = length M then i else 0)])"
  using assms by (cases v) (auto simp: set_column_def split: if_splits)

lemma np_clip_unit: "0 \<le> np_clip v 0 1 \<and> np_clip v 0 1 \<le> 1"
  by (simp add: np_clip_def)

lemma predict_proba_Inr:
  assumes "WrapAsClassifier_predict_proba env self X = Inr P"
  shows "\<exists>r raw. regressor_' self = Some r \<and> reg_predict env r X = Inr raw \<and>
           length P = length X \<and>
           (\<forall>row\<in>set P. \<exists>v\<in>set raw. row = [1 - np_clip v 0 1, np_clip v 0 1])"
proof -
  from assms obtain r raw probas1 where
    X: "check_array X = Inr X" and r: "regressor_' self = Some r"
    and raw: "reg_predict env r X = Inr raw"
    and c0: "set_column 0 (map (\<lambda>v. 1 - v) (map (\<lambda>v. np_clip v 0 1) raw))
               (replicate (length X) [0, 0]) = Inr probas1"
    and c1: "set_column 1 (map (\<lambda>v. np_clip v 0 1) raw) probas1 = Inr P"
    by (auto simp: WrapAsClassifier_predict_proba_def Let_def dest: check_array_Inr
        split: sum.splits option.splits)
  let ?k = "\<lambda>i. if length raw = length X then i else 0"
  from set_column_Inr[OF c0] have
    l0: "length probas1 = length X" and sh: "length raw = length X \<or> length raw = 1"
    and v0: "\<forall>i<length X. probas1 ! i = [1 - np_clip (raw ! ?k i) 0 1, 0]"
    by (auto split: if_splits)
  from set_column_Inr[OF c1] l0 have
    l1: "length P = length X"
    and v1: "\<forall>i<length X. P ! i = (probas1 ! i)[1 := np_clip (raw ! ?k i) 0 1]"
    by (auto split: if_splits)
  have rows: "\<forall>row\<in>set P. \<exists>v\<in>set raw. row = [1 - np_clip v 0 1, np_clip v 0 1]"
  proof
    fix row assume "row \<in> set P"
    then obtain i where i: "i < length X" and row: "row = P ! i"
      using l1 by (auto simp: in_set_conv_nth)
    have k: "?k i < length raw" using sh i by auto
    have "row = [1 - np_clip (raw ! ?k i) 0 1, np_clip (raw ! ?k i) 0 1]"
      using v0 v1 i row by simp
    with k show "\<exists>v\<in>set raw. row = [1 - np_clip v 0 1, np_clip v 0 1]"
      using nth_mem by blast
  qed
  show ?thesis using r raw l1 rows by blast
qed

lemma predict_proba_fitted:
  assumes "regressor_' self = Some r" "check_array X = Inr X" "reg_predict env r X = Inr raw"
    "length raw = length X"
  shows "WrapAsClassifier_predict_proba env self X =
           Inr (map (\<lambda>v. [1 - np_clip v 0 1, np_clip v 0 1]) raw)"
  using assms
  by (auto simp: WrapAsClassifier_predict_proba_def Let_def set_column_def list_eq_iff_nth_eq)

text \<open>
  Claim C5. Whenever \<^verbatim>\<open>predict_proba\<close> of a wrapper returns, the wrapper is fitted, the
  result has one row per row of \<open>X\<close>, and every row is \<open>[1 - p, p]\<close> for the value \<open>p\<close>
  that clipping to \<open>[0, 1]\<close> makes of an output of the wrapped regressor: a row has two
  entries, they add up to 1 and both lie in \<open>[0, 1]\<close>. And it does return: for a fitted
  wrapper, an input that \<^verbatim>\<open>check_array\<close> accepts and a regressor that answers with one
  value per row, the result is the matrix of the rows \<open>[1 - p, p]\<close>, in the order of the
  regressor's outputs.
\<close>

theorem WrapAsClassifier_predict_proba_rows:
  "(WrapAsClassifier_predict_proba env self X = Inr P \<longrightarrow>
      (\<exists>r raw. regressor_' self = Some r \<and> reg_predict env r X = Inr raw \<and>
         length P = length X \<and>
         (\<forall>row\<in>set P. \<exists>v\<in>set raw. row = [1 - np_clip v 0 1, np_clip v 0 1]) \<and>
         (\<forall>row\<in>set P. length row = 2 \<and> sum_list row = 1 \<and>
            (\<forall>x\<in>set row. 0 \<le> x \<and> x \<le> 1)))) \<and>
   (regressor_' self = Some r' \<and> check_array X = Inr X \<and>
    reg_predict env r' X = Inr raw' \<and> length raw' = length X \<longrightarrow>
      WrapAsClassifier_predict_proba env self X =
        Inr (map (\<lambda>v. [1 - np_clip v 0 1, np_clip v 0 1]) raw'))"
proof (intro conjI impI)
  assume "WrapAsClassifier_predict_proba env self X = Inr P"
  from predict_proba_Inr[OF this] obtain r raw where
    r: "regressor_' self = Some r" "reg_predict env r X = Inr raw" "length P = length X"
    and rows: "\<forall>row\<in>set P. \<exists>v\<in>set raw. row = [1 - np_clip v 0 1, np_clip v 0 1]"
    by blast
  have "\<forall>row\<in>set P. length row = 2 \<and> sum_list row = 1 \<and> (\<forall>x\<in>set row. 0 \<le> x \<and> x \<le> 1)"
  proof
    fix row assume "row \<in> set P"
    with rows obtain v where "row = [1 - np_clip v 0 1, np_clip v 0 1]" by blast
    then show "length row = 2 \<and> sum_list row = 1 \<and> (\<forall>x\<in>set row. 0 \<le> x \<and> x \<le> 1)"
      using np_clip_unit[of v] by auto
  qed
  with r rows show
    "\<exists>r raw. regressor_' self = Some r \<and> reg_predict env r X = Inr raw \<and>
       length P = length X \<and>
       (\<forall>row\<in>set P. \<exists>v\<in>set raw. row = [1 - np_clip v 0 1, np_clip v 0 1]) \<and>
       (\<forall>row\<in>set P. length row = 2 \<and> sum_list row = 1 \<and> (\<forall>x\<in>set row. 0 \<le> x \<and> x \<le> 1))"
    by blast
next
  assume "regressor_' self = Some r' \<and> check_array X = Inr X \<and>
    reg_predict env r' X = Inr raw' \<and> length raw' = length X"
  then show "WrapAsClassifier_predict_proba env self X =
      Inr (map (\<lambda>v. [1 - np_clip v 0 1, np_clip v 0 1]) raw')"
    using predict_proba_fitted[of self r' X env raw'] by simp
qed

text \<open>The fitted demo wrapper on three rows: the regressor answers 3/10, 2 and -1, which
  are clipped to 3/10, 1 and 0.\<close>

theorem WrapAsClassifier_predict_proba_rows_witness:
  "regressor_' demo_wrapper = Some 2 \<and>
   check_array [[3 / 10], [2], [- 1]] = Inr [[3 / 10], [2], [- 1]] \<and>
   reg_predict demo_env 2 [[3 / 10], [2], [- 1]] = Inr [3 / 10, 2, - 1] \<and>
   WrapAsClassifier_predict_proba demo_env demo_wrapper [[3 / 10], [2], [- 1]] =
     Inr [[7 / 10, 3 / 10], [0, 1], [1, 0]] \<and>
   list_all (\<lambda>row. length row = 2 \<and> sum_list row = 1 \<and> list_all (\<lambda>x. 0 \<le> x \<and> x \<le> 1) row)
     [[7 / 10, 3 / 10], [0, 1], [1, 0 :: real]]"
proof -
  let ?X = "[[3 / 10], [2], [- 1 :: real]]"
  have h: "regressor_' demo_wrapper = Some 2 \<and> check_array ?X = Inr ?X \<and>
      reg_predict demo_env 2 ?X = Inr [3 / 10, 2, - 1] \<and>
      length [3 / 10, 2, - 1 :: real] = length ?X"
    by (simp add: demo_wrapper_def demo_env_def check_array_def)
  have p: "WrapAsClassifier_predict_proba demo_env demo_wrapper ?X =
      Inr [[7 / 10, 3 / 10], [0, 1], [1, 0]]"
    using WrapAsClassifier_predict_proba_rows
      [of demo_env demo_wrapper ?X "[]" 2 "[3 / 10, 2, - 1]", THEN conjunct2] h
    by (simp add: np_clip_def)
  have "\<forall>row\<in>set [[7 / 10, 3 / 10], [0, 1], [1, 0 :: real]].
      length row = 2 \<and> sum_list row = 1 \<and> (\<forall>x\<in>set row. 0 \<le> x \<and> x \<le> 1)"
    using WrapAsClassifier_predict_proba_rows
      [of demo_env demo_wrapper ?X "[[7 / 10, 3 / 10], [0, 1], [1, 0]]" 2 "[]", THEN conjunct1] p
    by blast
  then show ?thesis using h p by (simp add: list_all_iff)
qed

lemma length_label_classes: "length (label_classes y) = card (set y)"
  by (simp add: label_classes_def length_remdups_card_conv)

lemma check_X_y_Inr: "check_X_y X y = Inr (X1, y1) \<Longrightarrow> X1 = X \<and> y1 = y"
  by (auto simp: check_X_y_def dest: check_array_Inr split: sum.splits if_splits)

lemma check_X_y_Inl: "check_X_y X y = Inl e \<Longrightarrow> e = ValueError"
  by (auto simp: check_X_y_def check_array_def split: sum.splits if_splits)

text \<open>
  Claim C6, as the code has it. \<^verbatim>\<open>WrapAsClassifier.fit\<close> raises \<^verbatim>\<open>ValueError\<close>
  whenever the labels do not have exactly two distinct values, and it leaves the wrapper
  as it was: the regressor has not been fitted, \<^verbatim>\<open>classes_\<close> and \<^verbatim>\<open>regressor_\<close> have not
  been set. It raises in the same way, before anything else, when \<^verbatim>\<open>check_X_y\<close>
  refuses the input, whatever the number of classes. For an input that \<^verbatim>\<open>check_X_y\<close>
  accepts and that has exactly two classes, the cardinality check passes: \<^verbatim>\<open>classes_\<close>
  is set, the clone of the regressor is fitted on the encoded labels, and \<^verbatim>\<open>fit\<close>
  raises only what the regressor's own \<^verbatim>\<open>fit\<close> raises.
\<close>

theorem WrapAsClassifier_fit_cardinality:
  "(card (set y) \<noteq> 2 \<longrightarrow> WrapAsClassifier_fit env self X y = Raised ValueError self) \<and>
   (check_X_y X y = Inl e \<longrightarrow> WrapAsClassifier_fit env self X y = Raised e self) \<and>
   (check_X_y X y = Inr (X, y) \<and> card (set y) = 2 \<longrightarrow>
      WrapAsClassifier_fit env self X y =
        (case reg_fit env (reg_clone env (regressor self)) X
                (label_transform (label_classes y) y) of
           Inl e \<Rightarrow> Raised e (self\<lparr>classes_' := Some (label_classes y)\<rparr>)
         | Inr r \<Rightarrow>
             Returned (self\<lparr>classes_' := Some (label_classes y), regressor_' := Some r\<rparr>)))"
proof (intro conjI impI)
  assume c: "card (set y) \<noteq> 2"
  show "WrapAsClassifier_fit env self X y = Raised ValueError self"
  proof (cases "check_X_y X y")
    case (Inl e)
    then show ?thesis using check_X_y_Inl[OF Inl] by (simp add: WrapAsClassifier_fit_def)
  next
    case (Inr p)
    obtain X1 y1 where p: "p = (X1, y1)" by (cases p)
    with Inr check_X_y_Inr[of X y X1 y1] have "y1 = y" by simp
    with Inr p c show ?thesis
      by (simp add: WrapAsClassifier_fit_def Let_def length_label_classes)
  qed
next
  assume "check_X_y X y = Inl e"
  then show "WrapAsClassifier_fit env self X y = Raised e self"
    by (simp add: WrapAsClassifier_fit_def)
next
  assume "check_X_y X y = Inr (X, y) \<and> card (set y) = 2"
  then show "WrapAsClassifier_fit env self X y =
        (case reg_fit env (reg_clone env (regressor self)) X
                (label_transform (label_classes y) y) of
           Inl e \<Rightarrow> Raised e (self\<lparr>classes_' := Some (label_classes y)\<rparr>)
         | Inr r \<Rightarrow>
             Returned (self\<lparr>classes_' := Some (label_classes y), regressor_' := Some r\<rparr>))"
    by (simp add: WrapAsClassifier_fit_def Let_def length_label_classes split: sum.splits)
qed

text \<open>Three rows with the labels 0, 1, 2 (three classes); three rows with two labels
  (refused by \<^verbatim>\<open>check_X_y\<close>); three rows with the labels 5, 7, 7 (two classes).\<close>

theorem WrapAsClassifier_fit_cardinality_witness:
  "card (set [0, 1, 2 :: int]) \<noteq> 2 \<and>
   WrapAsClassifier_fit demo_env (WrapAsClassifier_init 0) [[1], [2], [3]] [0, 1, 2] =
     Raised ValueError (WrapAsClassifier_init 0) \<and>
   check_X_y [[1], [2], [3]] [0, 1] = Inl ValueError \<and>
   WrapAsClassifier_fit demo_env (WrapAsClassifier_init 0) [[1], [2], [3]] [0, 1] =
     Raised ValueError (WrapAsClassifier_init 0) \<and>
   check_X_y [[1], [2], [3]] [5, 7, 7] = Inr ([[1], [2], [3]], [5, 7, 7]) \<and>
   card (set [5, 7, 7 :: int]) = 2 \<and>
   WrapAsClassifier_fit demo_env (WrapAsClassifier_init 0) [[1], [2], [3]] [5, 7, 7] =
     Returned \<lparr>regressor = 0, classes_' = Some [5, 7], regressor_' = Some 3\<rparr>"
proof -
  let ?X = "[[1], [2], [3 :: real]]" and ?w = "WrapAsClassifier_init (0 :: nat)"
  have h1: "card (set [0, 1, 2 :: int]) \<noteq> 2" by simp
  have h2: "check_X_y ?X [0, 1] = Inl ValueError"
    by (simp add: check_X_y_def check_array_def)
  have h3: "check_X_y ?X [5, 7, 7] = Inr (?X, [5, 7, 7]) \<and> card (set [5, 7, 7 :: int]) = 2"
    by (simp add: check_X_y_def check_array_def)
  note t = WrapAsClassifier_fit_cardinality
  have r1: "WrapAsClassifier_fit demo_env ?w ?X [0, 1, 2] = Raised ValueError ?w"
    using t[of "[0, 1, 2]" demo_env ?w ?X, THEN conjunct1] h1 by blast
  have r2: "WrapAsClassifier_fit demo_env ?w ?X [0, 1] = Raised ValueError ?w"
    using t[of "[0, 1]" demo_env ?w ?X ValueError, THEN conjunct2, THEN conjunct1] h2 by blast
  have r3: "WrapAsClassifier_fit demo_env ?w ?X [5, 7, 7] =
      Returned \<lparr>regressor = 0, classes_' = Some [5, 7], regressor_' = Some 3\<rparr>"
    using t[of "[5, 7, 7]" demo_env ?w ?X, THEN conjunct2, THEN conjunct2] h3
    by (simp add: demo_env_def WrapAsClassifier_init_def label_classes_def)
  show ?thesis using h1 h2 h3 r1 r2 r3 by blast
qed

text \<open>The claim says the error is raised if and only if the labels do not have exactly
  two classes. Three samples with the two labels 0 and 1: two classes, and
  \<^verbatim>\<open>check_X_y\<close> raises \<^verbatim>\<open>ValueError\<close> for the inconsistent numbers of samples.\<close>

theorem WrapAsClassifier_fit_cardinality_counterexample:
  "card (set [0, 1 :: int]) = 2 \<and>
   WrapAsClassifier_fit demo_env (WrapAsClassifier_init 0) [[1], [2], [3]] [0, 1] =
     Raised ValueError (WrapAsClassifier_init 0)"
  by (simp add: WrapAsClassifier_fit_def check_X_y_def check_array_def)

section \<open>Properties of CalibratedClassifierRatio.fit\<close>

lemma unfitted_predict_proba:
  "WrapAsClassifier_predict_proba env (WrapAsClassifier_init r) Xq =
     (if check_array Xq = Inr Xq then Inl AttributeError else Inl ValueError)"
  by (simp add: WrapAsClassifier_predict_proba_def WrapAsClassifier_init_def check_array_def)

lemma class_scores_unfitted:
  "\<exists>e. class_scores env (Wrapped (WrapAsClassifier_init r)) X y l = Inl e"
  by (simp add: class_scores_def unfitted_predict_proba split: sum.splits)

lemma fit_prefit_unfitted:
  "\<exists>e. fit_prefit env s (Wrapped (WrapAsClassifier_init r)) X y = Raised e s"
proof -
  obtain e where "class_scores env (Wrapped (WrapAsClassifier_init r)) X y 0 = Inl e"
    using class_scores_unfitted[of env r X y 0] by auto
  then show ?thesis
    by (simp add: fit_prefit_def calibrate_pair_def split: sum.splits prod.splits)
qed

text \<open>
  Claim C10. With a regressor as base estimator and \<^verbatim>\<open>cv = "prefit"\<close>, the classifier
  that \<^verbatim>\<open>fit\<close> scores with is a wrapper built on the spot, whose \<^verbatim>\<open>regressor_\<close> does
  not exist. Its \<^verbatim>\<open>predict_proba\<close> fails on every input: with \<^verbatim>\<open>ValueError\<close> where
  \<^verbatim>\<open>check_array\<close> refuses the input, with \<^verbatim>\<open>AttributeError\<close> otherwise. So \<^verbatim>\<open>fit\<close>
  raises for every input, and the estimator is left as it was or with an empty ensemble.
\<close>

theorem fit_prefit_regressor_fails:
  "base_estimator self = Regressor r \<and> cv self = CvName ''prefit'' \<longrightarrow>
     resolve_base (base_estimator self) = Wrapped (WrapAsClassifier_init r) \<and>
     regressor_' (WrapAsClassifier_init r) = None \<and>
     (\<forall>Xq. WrapAsClassifier_predict_proba env (WrapAsClassifier_init r) Xq =
        (if check_array Xq = Inr Xq then Inl AttributeError else Inl ValueError)) \<and>
     (\<exists>e s. fit env self X y numerator denominator n_samples = Raised e s \<and>
        (s = self \<or> (classifiers_' s = Some [] \<and> calibrators_' s = Some [])))"
proof (intro impI)
  assume a: "base_estimator self = Regressor r \<and> cv self = CvName ''prefit''"
  let ?s1 = "self\<lparr>classifiers_' := Some [], calibrators_' := Some []\<rparr>"
  have raised: "\<exists>e s. fit env self X y numerator denominator n_samples = Raised e s \<and>
        (s = self \<or> (classifiers_' s = Some [] \<and> calibrators_' s = Some []))"
  proof (cases "fit_inputs env X y numerator denominator n_samples")
    case (Inl e)
    then show ?thesis by (simp add: fit_def)
  next
    case (Inr p)
    obtain X1 y1 where p: "p = (X1, y1)" by (cases p)
    obtain e where "fit_prefit env ?s1 (Wrapped (WrapAsClassifier_init r)) X1 y1 = Raised e ?s1"
      using fit_prefit_unfitted[of env ?s1 r X1 y1] by auto
    with Inr p a have "fit env self X y numerator denominator n_samples = Raised e ?s1"
      by (simp add: fit_def)
    then show ?thesis by simp
  qed
  have r0: "regressor_' (WrapAsClassifier_init r) = None"
    by (simp add: WrapAsClassifier_init_def)
  show "resolve_base (base_estimator self) = Wrapped (WrapAsClassifier_init r) \<and>
     regressor_' (WrapAsClassifier_init r) = None \<and>
     (\<forall>Xq. WrapAsClassifier_predict_proba env (WrapAsClassifier_init r) Xq =
        (if check_array Xq = Inr Xq then Inl AttributeError else Inl ValueError)) \<and>
     (\<exists>e s. fit env self X y numerator denominator n_samples = Raised e s \<and>
        (s = self \<or> (classifiers_' s = Some [] \<and> calibrators_' s = Some [])))"
    using a raised r0 by (simp add: unfitted_predict_proba)
qed

text \<open>The demo regressor as base estimator, prefit, on two labelled rows: the scoring call
  raises \<^verbatim>\<open>AttributeError\<close>.\<close>

theorem fit_prefit_regressor_fails_witness:
  "base_estimator (demo_ratio (Regressor 0) (CvName ''prefit'')) = Regressor 0 \<and>
   cv (demo_ratio (Regressor 0) (CvName ''prefit'')) = CvName ''prefit'' \<and>
   WrapAsClassifier_predict_proba demo_env (WrapAsClassifier_init 0) [[0]] = Inl AttributeError \<and>
   (\<exists>e s. fit demo_env (demo_ratio (Regressor 0) (CvName ''prefit''))
            (Some [[0], [1]]) (Some [0, 1]) None None None = Raised e s)"
proof -
  let ?self = "demo_ratio (Regressor 0) (CvName ''prefit'')"
  have h: "base_estimator ?self = Regressor 0 \<and> cv ?self = CvName ''prefit''"
    by (simp add: demo_ratio_def)
  note t = fit_prefit_regressor_fails
    [of ?self 0 demo_env "Some [[0], [1]]" "Some [0, 1]" None None None, THEN mp, OF h]
  have "WrapAsClassifier_predict_proba demo_env (WrapAsClassifier_init 0) [[0]] =
      Inl AttributeError"
    using t by (simp add: check_array_def)
  moreover have "\<exists>e s. fit demo_env ?self (Some [[0], [1]]) (Some [0, 1]) None None None =
      Raised e s"
    using t by blast
  ultimately show ?thesis using h by blast
qed


lemma append_entry_fields:
  "classifiers_' (append_entry s c p) = map_option (\<lambda>l. l @ [c]) (classifiers_' s)"
  "calibrators_' (append_entry s c p) = map_option (\<lambda>l. l @ [p]) (calibrators_' s)"
  "base_estimator (append_entry s c p) = base_estimator s"
  "calibration (append_entry s c p) = calibration s"
  "cv (append_entry s c p) = cv s"
  "decompose (append_entry s c p) = decompose s"
  by (simp_all add: append_entry_def)

lemma fit_fold_Inr:
  assumes "fit_fold env s base X y train calibrate = Inr s1"
  shows "\<exists>X_train y_train classifier pair.
           fancy_index X train = Inr X_train \<and> fancy_index y train = Inr y_train \<and>
           classifier_fit env (classifier_clone env base) X_train y_train = Inr classifier \<and>
           s1 = append_entry s classifier pair"
  using assms by (auto simp: fit_fold_def split: sum.splits prod.splits)

lemma fit_folds_Returned:
  assumes "fit_folds env s base X y folds = Returned s1"
    and "classifiers_' s = Some cl0" and "calibrators_' s = Some ca0"
  shows "\<exists>cl ca. classifiers_' s1 = Some (cl0 @ cl) \<and> calibrators_' s1 = Some (ca0 @ ca) \<and>
           length cl = length folds \<and> length ca = length folds \<and>
           (\<forall>j<length folds. \<exists>X_train y_train.
              fancy_index X (fst (folds ! j)) = Inr X_train \<and>
              fancy_index y (fst (folds ! j)) = Inr y_train \<and>
              classifier_fit env (classifier_clone env base) X_train y_train = Inr (cl ! j))"
  using assms
proof (induction folds arbitrary: s cl0 ca0)
  case Nil
  then show ?case by simp
next
  case (Cons fold folds)
  obtain train calibrate where fold: "fold = (train, calibrate)" by (cases fold)
  from Cons.prems(1) fold obtain s2 where
    s2: "fit_fold env s base X y train calibrate = Inr s2"
    and rest: "fit_folds env s2 base X y folds = Returned s1"
    by (auto split: sum.splits)
  from fit_fold_Inr[OF s2] obtain X_train y_train classifier pair where
    tr: "fancy_index X train = Inr X_train" "fancy_index y train = Inr y_train"
      "classifier_fit env (classifier_clone env base) X_train y_train = Inr classifier"
    and s2eq: "s2 = append_entry s classifier pair"
    by blast
  have c2: "classifiers_' s2 = Some (cl0 @ [classifier])"
    and k2: "calibrators_' s2 = Some (ca0 @ [pair])"
    using s2eq Cons.prems(2,3) by (simp_all add: append_entry_fields)
  from Cons.IH[OF rest c2 k2] obtain cl ca where
    cl: "classifiers_' s1 = Some ((cl0 @ [classifier]) @ cl)"
      "calibrators_' s1 = Some ((ca0 @ [pair]) @ ca)"
      "length cl = length folds" "length ca = length folds"
    and each: "\<forall>j<length folds. \<exists>X_train y_train.
              fancy_index X (fst (folds ! j)) = Inr X_train \<and>
              fancy_index y (fst (folds ! j)) = Inr y_train \<and>
              classifier_fit env (classifier_clone env base) X_train y_train = Inr (cl ! j)"
    by blast
  have "\<forall>j<length (fold # folds). \<exists>X_train y_train.
              fancy_index X (fst ((fold # folds) ! j)) = Inr X_train \<and>
              fancy_index y (fst ((fold # folds) ! j)) = Inr y_train \<and>
              classifier_fit env (classifier_clone env base) X_train y_train =
                Inr ((classifier # cl) ! j)"
  proof (intro allI impI)
    fix j assume "j < length (fold # folds)"
    then show "\<exists>X_train y_train.
              fancy_index X (fst ((fold # folds) ! j)) = Inr X_train \<and>
              fancy_index y (fst ((fold # folds) ! j)) = Inr y_train \<and>
              classifier_fit env (classifier_clone env base) X_train y_train =
                Inr ((classifier # cl) ! j)"
      using tr fold each by (cases j) auto
  qed
  with cl show ?case
    by (intro exI[of _ "classifier # cl"] exI[of _ "pair # ca"]) simp
qed

lemma fit_folds_Raised:
  assumes "fit_folds env s base X y folds = Raised e s1"
    and "classifiers_' s = Some cl0" and "calibrators_' s = Some ca0"
  shows "\<exists>cl ca. classifiers_' s1 = Some (cl0 @ cl) \<and> calibrators_' s1 = Some (ca0 @ ca) \<and>
           length cl = length ca \<and> length cl < length folds"
  using assms
proof (induction folds arbitrary: s cl0 ca0)
  case Nil
  then show ?case by simp
next
  case (Cons fold folds)
  obtain train calibrate where fold: "fold = (train, calibrate)" by (cases fold)
  show ?case
  proof (cases "fit_fold env s base X y train calibrate")
    case (Inl e')
    with Cons.prems fold have "s1 = s" by simp
    with Cons.prems(2,3) show ?thesis by simp
  next
    case (Inr s2)
    with Cons.prems(1) fold have rest: "fit_folds env s2 base X y folds = Raised e s1" by simp
    from fit_fold_Inr[OF Inr] obtain classifier pair where
      s2eq: "s2 = append_entry s classifier pair" by blast
    have c2: "classifiers_' s2 = Some (cl0 @ [classifier])"
      and k2: "calibrators_' s2 = Some (ca0 @ [pair])"
      using s2eq Cons.prems(2,3) by (simp_all add: append_entry_fields)
    from Cons.IH[OF rest c2 k2] obtain cl ca where
      "classifiers_' s1 = Some ((cl0 @ [classifier]) @ cl)"
      "calibrators_' s1 = Some ((ca0 @ [pair]) @ ca)"
      "length cl = length ca" "length cl < length folds"
      by blast
    then show ?thesis
      by (intro exI[of _ "classifier # cl"] exI[of _ "pair # ca"]) simp
  qed
qed

lemma fit_inputs_incomplete:
  "\<not> complete_args X y numerator denominator n_samples \<Longrightarrow>
     fit_inputs env X y numerator denominator n_samples = Inl ValueError"
  by (cases X; cases y; cases numerator; cases denominator; cases n_samples)
     (simp_all add: complete_args_def)

lemma fit_Raised_cases:
  assumes "fit env self X y numerator denominator n_samples = Raised e s"
  shows "(fit_inputs env X y numerator denominator n_samples = Inl e \<and> s = self) \<or>
         (\<exists>X1 y1. fit_inputs env X y numerator denominator n_samples = Inr (X1, y1) \<and>
            (\<exists>clfs cals. classifiers_' s = Some clfs \<and> calibrators_' s = Some cals \<and>
               length clfs = length cals \<and>
               (if cv self = CvName ''prefit'' then clfs = []
                else (cv_split env (cv self) X1 y1 = Inl e \<and> clfs = []) \<or>
                     (\<exists>folds. cv_split env (cv self) X1 y1 = Inr folds \<and>
                        length clfs < length folds))))"
proof (cases "fit_inputs env X y numerator denominator n_samples")
  case (Inl e')
  with assms show ?thesis by (simp add: fit_def)
next
  case (Inr p)
  obtain X1 y1 where p: "p = (X1, y1)" by (cases p)
  let ?s1 = "self\<lparr>classifiers_' := Some [], calibrators_' := Some []\<rparr>"
  let ?base = "resolve_base (base_estimator self)"
  show ?thesis
  proof (cases "cv self = CvName ''prefit''")
    case True
    with assms Inr p have "fit_prefit env ?s1 ?base X1 y1 = Raised e s"
      by (simp add: fit_def)
    then have "s = ?s1"
      by (auto simp: fit_prefit_def split: sum.splits prod.splits)
    with Inr p True show ?thesis by simp
  next
    case False
    show ?thesis
    proof (cases "cv_split env (cv self) X1 y1")
      case (Inl e')
      with assms Inr p False have "e' = e \<and> s = ?s1" by (simp add: fit_def)
      with Inl Inr p False show ?thesis by simp
    next
      case (Inr folds)
      with assms \<open>fit_inputs env X y numerator denominator n_samples = Inr p\<close> p False
      have "fit_folds env ?s1 ?base X1 y1 folds = Raised e s" by (simp add: fit_def)
      from fit_folds_Raised[OF this, of "[]" "[]"] obtain cl ca where
        "classifiers_' s = Some cl" "calibrators_' s = Some ca" "length cl = length ca"
        "length cl < length folds"
        by auto
      with Inr \<open>fit_inputs env X y numerator denominator n_samples = Inr p\<close> p False
      show ?thesis by simp
    qed
  qed
qed

text \<open>
  Claim C7, as the code has it. If neither input mode is complete, \<^verbatim>\<open>fit\<close> raises
  \<^verbatim>\<open>ValueError\<close> and the estimator is left as it was, whatever the collaborators are:
  nothing has been computed. If \<open>X\<close> and \<open>y\<close> are given, they are the sample set; if
  one of them is missing and the numerator, the denominator and \<open>n_samples\<close> are given,
  the sample set is the one drawn from them. If a
  mode is complete and \<^verbatim>\<open>fit\<close> raises all the same, the exception comes from drawing
  the samples (generative mode, estimator left as it was) or from a later step, after
  \<^verbatim>\<open>classifiers_\<close> and \<^verbatim>\<open>calibrators_\<close> have been set.
\<close>

theorem fit_argument_check:
  "(\<not> complete_args X y numerator denominator n_samples \<longrightarrow>
      fit env self X y numerator denominator n_samples = Raised ValueError self) \<and>
   (X = Some X1 \<and> y = Some y1 \<longrightarrow>
      fit_inputs env X y numerator denominator n_samples = Inr (X1, y1)) \<and>
   (complete_args X y numerator denominator n_samples \<and>
    fit env self X y numerator denominator n_samples = Raised e s \<longrightarrow>
      ((X = None \<or> y = None) \<and> s = self \<and>
       fit_inputs env X y numerator denominator n_samples = Inl e) \<or>
      (\<exists>clfs cals. classifiers_' s = Some clfs \<and> calibrators_' s = Some cals)) \<and>
   ((X = None \<or> y = None) \<and> numerator = Some d1 \<and> denominator = Some d2 \<and>
    n_samples = Some n \<longrightarrow>
      fit_inputs env X y numerator denominator n_samples = draw_samples env d1 d2 n)"
proof (intro conjI impI)
  assume "\<not> complete_args X y numerator denominator n_samples"
  then show "fit env self X y numerator denominator n_samples = Raised ValueError self"
    by (simp add: fit_def fit_inputs_incomplete)
next
  assume "X = Some X1 \<and> y = Some y1"
  then show "fit_inputs env X y numerator denominator n_samples = Inr (X1, y1)" by simp
next
  assume a: "complete_args X y numerator denominator n_samples \<and>
    fit env self X y numerator denominator n_samples = Raised e s"
  then have r: "fit env self X y numerator denominator n_samples = Raised e s" by simp
  have direct: "X \<noteq> None \<and> y \<noteq> None \<Longrightarrow>
      fit_inputs env X y numerator denominator n_samples \<noteq> Inl e"
    by (cases X; cases y) simp_all
  from fit_Raised_cases[OF r] direct
  show "((X = None \<or> y = None) \<and> s = self \<and>
       fit_inputs env X y numerator denominator n_samples = Inl e) \<or>
      (\<exists>clfs cals. classifiers_' s = Some clfs \<and> calibrators_' s = Some cals)"
    by blast
next
  assume "(X = None \<or> y = None) \<and> numerator = Some d1 \<and> denominator = Some d2 \<and>
    n_samples = Some n"
  then show "fit_inputs env X y numerator denominator n_samples = draw_samples env d1 d2 n"
    by (cases X; cases y) auto
qed

text \<open>No \<open>X\<close> and no denominator: neither mode is complete. Two distributions and
  \<open>n_samples = 4\<close>: the sample set is drawn. Four rows given with their
  labels, a regressor as base estimator and one fold whose training rows carry a single
  label: the mode is complete, and the cardinality check of the wrapper raises
  \<^verbatim>\<open>ValueError\<close> after the ensemble has been reset.\<close>

theorem fit_argument_check_witness:
  "\<not> complete_args None (Some [0]) (Some (1 :: real)) None (Some 4) \<and>
   fit demo_env (demo_ratio (Regressor 0) (CvOther [([2, 3], [0, 1])]))
     None (Some [0]) (Some 1) None (Some 4) =
     Raised ValueError (demo_ratio (Regressor 0) (CvOther [([2, 3], [0, 1])])) \<and>
   fit_inputs demo_env (Some [[0], [1], [2], [3]]) (Some [0, 1, 0, 0]) None None None =
     Inr ([[0], [1], [2], [3]], [0, 1, 0, 0]) \<and>
   complete_args (Some [[0], [1], [2], [3]]) (Some [0, 1, 0, 0])
     (None :: real option) None None \<and>
   fit demo_env (demo_ratio (Regressor 0) (CvOther [([2, 3], [0, 1])]))
     (Some [[0], [1], [2], [3]]) (Some [0, 1, 0, 0]) None None None =
     Raised ValueError
       ((demo_ratio (Regressor 0) (CvOther [([2, 3], [0, 1])]))
          \<lparr>classifiers_' := Some [], calibrators_' := Some []\<rparr>) \<and>
   (\<exists>clfs cals.
      classifiers_' ((demo_ratio (Regressor 0) (CvOther [([2, 3], [0, 1])]))
          \<lparr>classifiers_' := Some [], calibrators_' := Some []\<rparr>) = Some clfs \<and>
      calibrators_' ((demo_ratio (Regressor 0) (CvOther [([2, 3], [0, 1])]))
          \<lparr>classifiers_' := Some [], calibrators_' := Some []\<rparr>) = Some cals) \<and>
   fit_inputs demo_env None None (Some 1) (Some 2) (Some 4) = draw_samples demo_env 1 2 4"
proof -
  let ?self = "demo_ratio (Regressor 0) (CvOther [([2, 3], [0, 1])])"
  let ?s1 = "?self\<lparr>classifiers_' := Some [], calibrators_' := Some []\<rparr>"
  let ?X = "Some [[0], [1], [2], [3 :: real]]" and ?y = "Some [0, 1, 0, 0 :: int]"
  have h1: "\<not> complete_args None (Some [0]) (Some (1 :: real)) None (Some 4)"
    by (simp add: complete_args_def)
  have h2: "complete_args ?X ?y (None :: real option) None None"
    by (simp add: complete_args_def)
  have r: "fit demo_env ?self ?X ?y None None None = Raised ValueError ?s1"
    by (simp add: fit_def fit_fold_def demo_ratio_def demo_env_def fancy_index_def
        WrapAsClassifier_fit_def WrapAsClassifier_init_def check_X_y_def check_array_def
        label_classes_def)
  have a: "fit demo_env ?self None (Some [0]) (Some 1) None (Some 4) = Raised ValueError ?self"
    using fit_argument_check
      [of None "Some [0]" "Some 1" None "Some 4" demo_env ?self, THEN conjunct1] h1
    by blast
  have b: "fit_inputs demo_env ?X ?y None None None = Inr ([[0], [1], [2], [3]], [0, 1, 0, 0])"
    using fit_argument_check
      [of ?X ?y None None None demo_env ?self "[[0], [1], [2], [3]]" "[0, 1, 0, 0]",
        THEN conjunct2, THEN conjunct1]
    by blast
  have c: "\<exists>clfs cals. classifiers_' ?s1 = Some clfs \<and> calibrators_' ?s1 = Some cals"
    using fit_argument_check
      [of ?X ?y None None None demo_env ?self _ _ ValueError ?s1,
        THEN conjunct2, THEN conjunct2, THEN conjunct1] h2 r
    by blast
  have d: "fit_inputs demo_env None None (Some 1) (Some 2) (Some 4) = draw_samples demo_env 1 2 4"
    using fit_argument_check
      [of None None "Some 1" "Some 2" "Some 4" demo_env _ _ _ _ _ 1 2 4,
        THEN conjunct2, THEN conjunct2, THEN conjunct2]
    by blast
  show ?thesis using h1 h2 r a b c d by blast
qed

text \<open>The claim says that \<^verbatim>\<open>fit\<close> raises a validation error only if neither mode is
  complete, and before any mutation. Here \<open>X\<close> and \<open>y\<close> are given, \<^verbatim>\<open>fit\<close> raises
  \<^verbatim>\<open>ValueError\<close>, and the estimator, which had no ensemble, is left with an empty one.\<close>

theorem fit_argument_check_counterexample:
  "complete_args (Some [[0], [1], [2], [3]]) (Some [0, 1, 0, 0]) (None :: real option) None None \<and>
   classifiers_' (demo_ratio (Regressor 0) (CvOther [([2, 3], [0, 1])])) = None \<and>
   fit demo_env (demo_ratio (Regressor 0) (CvOther [([2, 3], [0, 1])]))
     (Some [[0], [1], [2], [3]]) (Some [0, 1, 0, 0]) None None None =
     Raised ValueError
       ((demo_ratio (Regressor 0) (CvOther [([2, 3], [0, 1])]))
          \<lparr>classifiers_' := Some [], calibrators_' := Some []\<rparr>)"
  by (simp add: complete_args_def fit_def fit_fold_def demo_ratio_def demo_env_def
      fancy_index_def WrapAsClassifier_fit_def WrapAsClassifier_init_def check_X_y_def
      check_array_def label_classes_def)

lemma check_calibration_reset:
  "check_calibration env (s\<lparr>classifiers_' := a, calibrators_' := b\<rparr>) = check_calibration env s"
  by (simp add: check_calibration_def)

lemma fit_Returned_cases:
  assumes "fit env self X y numerator denominator n_samples = Returned s"
  shows "\<exists>X1 y1 clfs cals.
        fit_inputs env X y numerator denominator n_samples = Inr (X1, y1) \<and>
        classifiers_' s = Some clfs \<and> calibrators_' s = Some cals \<and>
        length clfs = length cals \<and>
        (if cv self = CvName ''prefit''
         then (\<exists>c kn kd. base_estimator self = Classifier c \<and> clfs = [c] \<and>
                 check_calibration env self = Inr (kn, kd) \<and>
                 calibrate_pair env c kn kd X1 y1 = Inr (cals ! 0) \<and> length cals = 1)
         else (\<exists>folds. cv_split env (cv self) X1 y1 = Inr folds \<and>
                 length clfs = length folds \<and>
                 (\<forall>j<length folds. \<exists>X_train y_train.
                    fancy_index X1 (fst (folds ! j)) = Inr X_train \<and>
                    fancy_index y1 (fst (folds ! j)) = Inr y_train \<and>
                    classifier_fit env (classifier_clone env (resolve_base (base_estimator self)))
                      X_train y_train = Inr (clfs ! j))))"
proof -
  let ?s1 = "self\<lparr>classifiers_' := Some [], calibrators_' := Some []\<rparr>"
  let ?base = "resolve_base (base_estimator self)"
  from assms obtain X1 y1 where
    inp: "fit_inputs env X y numerator denominator n_samples = Inr (X1, y1)"
    by (auto simp: fit_def split: sum.splits)
  show ?thesis
  proof (cases "cv self = CvName ''prefit''")
    case True
    with assms inp have pre: "fit_prefit env ?s1 ?base X1 y1 = Returned s"
      by (simp add: fit_def)
    obtain c where c: "base_estimator self = Classifier c"
    proof (cases "base_estimator self")
      case (Regressor r)
      with pre fit_prefit_unfitted[of env ?s1 r X1 y1] show ?thesis by auto
    next
      case (Classifier c)
      then show ?thesis using that by blast
    qed
    from pre c obtain kn kd pair where
      k: "check_calibration env self = Inr (kn, kd)"
      and p: "calibrate_pair env c kn kd X1 y1 = Inr pair"
      and s: "s = append_entry ?s1 c pair"
      by (auto simp: fit_prefit_def check_calibration_reset split: sum.splits prod.splits)
    from s have "classifiers_' s = Some [c]" "calibrators_' s = Some [pair]"
      by (simp_all add: append_entry_fields)
    with inp True c k p show ?thesis by simp
  next
    case False
    with assms inp obtain folds where
      sp: "cv_split env (cv self) X1 y1 = Inr folds"
      and lp: "fit_folds env ?s1 ?base X1 y1 folds = Returned s"
      by (auto simp: fit_def Let_def split: sum.splits)
    from fit_folds_Returned[OF lp, of "[]" "[]"] obtain cl ca where
      "classifiers_' s = Some cl" "calibrators_' s = Some ca"
      "length cl = length folds" "length ca = length folds"
      "\<forall>j<length folds. \<exists>X_train y_train.
          fancy_index X1 (fst (folds ! j)) = Inr X_train \<and>
          fancy_index y1 (fst (folds ! j)) = Inr y_train \<and>
          classifier_fit env (classifier_clone env ?base) X_train y_train = Inr (cl ! j)"
      by auto
    with inp False sp show ?thesis by simp
  qed
qed

text \<open>
  Claim C8. After a call of \<^verbatim>\<open>fit\<close> that returns, \<^verbatim>\<open>classifiers_\<close> and
  \<^verbatim>\<open>calibrators_\<close> exist and have the same length. With \<^verbatim>\<open>cv = "prefit"\<close> they have
  one entry: the classifier is the base estimator itself, which is a classifier and has not
  been cloned, and its pair of calibrators was fitted on the scores of the whole sample
  set. Otherwise they have one entry per fold that the splitter yields, in the order of
  the folds, and the classifier of a fold is what fitting a clone of the base classifier
  on the rows of that fold's training indices returns.
\<close>

theorem fit_ensemble_entries:
  "fit env self X y numerator denominator n_samples = Returned s \<longrightarrow>
     (\<exists>X1 y1 clfs cals.
        fit_inputs env X y numerator denominator n_samples = Inr (X1, y1) \<and>
        classifiers_' s = Some clfs \<and> calibrators_' s = Some cals \<and>
        length clfs = length cals \<and>
        (if cv self = CvName ''prefit''
         then (\<exists>c kn kd. base_estimator self = Classifier c \<and> clfs = [c] \<and>
                 check_calibration env self = Inr (kn, kd) \<and>
                 calibrate_pair env c kn kd X1 y1 = Inr (cals ! 0) \<and> length cals = 1)
         else (\<exists>folds. cv_split env (cv self) X1 y1 = Inr folds \<and>
                 length clfs = length folds \<and>
                 (\<forall>j<length folds. \<exists>X_train y_train.
                    fancy_index X1 (fst (folds ! j)) = Inr X_train \<and>
                    fancy_index y1 (fst (folds ! j)) = Inr y_train \<and>
                    classifier_fit env (classifier_clone env (resolve_base (base_estimator self)))
                      X_train y_train = Inr (clfs ! j)))))"
  using fit_Returned_cases by blast

text \<open>The demo classifier \<open>Plain 3\<close> as base estimator. Prefit, on two labelled rows: one
  entry, the classifier \<open>Plain 3\<close> itself. With two folds on four labelled rows: two
  entries, each classifier a clone fitted on the two training rows of its fold.\<close>

theorem fit_ensemble_entries_witness:
  "fit demo_env (demo_ratio (Classifier (Plain 3)) (CvName ''prefit''))
     (Some [[0], [1]]) (Some [0, 1]) None None None =
     Returned ((demo_ratio (Classifier (Plain 3)) (CvName ''prefit''))
       \<lparr>classifiers_' := Some [Plain 3],
        calibrators_' := Some [(Some [1 / 2], Some [1 / 2])]\<rparr>) \<and>
   fit demo_env (demo_ratio (Classifier (Plain 3)) (CvOther [([0, 1], [2, 3]), ([2, 3], [0, 1])]))
     (Some [[0], [1], [2], [3]]) (Some [0, 1, 0, 1]) None None None =
     Returned ((demo_ratio (Classifier (Plain 3)) (CvOther [([0, 1], [2, 3]), ([2, 3], [0, 1])]))
       \<lparr>classifiers_' := Some [Plain 2, Plain 2],
        calibrators_' :=
          Some [(Some [1 / 2], Some [1 / 2]), (Some [1 / 2], Some [1 / 2])]\<rparr>) \<and>
   (\<exists>folds. cv_split demo_env (CvOther [([0, 1], [2, 3]), ([2, 3], [0, 1])])
        [[0], [1], [2], [3]] [0, 1, 0, 1] = Inr folds \<and>
      length [Plain 2, Plain 2 :: (nat, nat) classifier] = length folds) \<and>
   classifier_fit demo_env (classifier_clone demo_env (Plain 3)) [[0], [1]] [0, 1] =
     Inr (Plain 2)"
proof -
  let ?p = "demo_ratio (Classifier (Plain 3)) (CvName ''prefit'')"
  let ?c = "demo_ratio (Classifier (Plain 3)) (CvOther [([0, 1], [2, 3]), ([2, 3], [0, 1])])"
  let ?sp = "?p\<lparr>classifiers_' := Some [Plain 3],
      calibrators_' := Some [(Some [1 / 2], Some [1 / 2])]\<rparr>"
  let ?sc = "?c\<lparr>classifiers_' := Some [Plain 2, Plain 2],
      calibrators_' := Some [(Some [1 / 2], Some [1 / 2]), (Some [1 / 2], Some [1 / 2])]\<rparr>"
  have rp: "fit demo_env ?p (Some [[0], [1]]) (Some [0, 1]) None None None = Returned ?sp"
    by (simp add: fit_def Let_def fit_prefit_def calibrate_pair_def class_scores_def
        check_calibration_def append_entry_def demo_ratio_def demo_env_def
        boolean_index_def column0_def reshape_col_def)
  have rc: "fit demo_env ?c (Some [[0], [1], [2], [3]]) (Some [0, 1, 0, 1]) None None None =
      Returned ?sc"
    by (simp add: fit_def fit_fold_def calibrate_pair_def class_scores_def
        check_calibration_def append_entry_def demo_ratio_def demo_env_def fancy_index_def
        boolean_index_def column0_def reshape_col_def)
  have cvp: "cv ?p = CvName ''prefit''" "cv ?c \<noteq> CvName ''prefit''"
    "base_estimator ?c = Classifier (Plain 3)"
    "cv ?c = CvOther [([0, 1], [2, 3]), ([2, 3], [0, 1])]"
    by (simp_all add: demo_ratio_def)
  from fit_ensemble_entries
    [of demo_env ?p "Some [[0], [1]]" "Some [0, 1]" None None None ?sp, THEN mp, OF rp] cvp
  have one: "\<exists>clfs. classifiers_' ?sp = Some clfs \<and> length clfs = 1"
    by auto
  from fit_ensemble_entries
    [of demo_env ?c "Some [[0], [1], [2], [3]]" "Some [0, 1, 0, 1]" None None None ?sc,
      THEN mp, OF rc] cvp
  obtain folds where
    f: "cv_split demo_env (CvOther [([0, 1], [2, 3]), ([2, 3], [0, 1])])
          [[0], [1], [2], [3]] [0, 1, 0, 1] = Inr folds"
      "length [Plain 2, Plain 2 :: (nat, nat) classifier] = length folds"
    and tr: "\<forall>j<length folds. \<exists>X_train y_train.
          fancy_index [[0], [1], [2], [3 :: real]] (fst (folds ! j)) = Inr X_train \<and>
          fancy_index [0, 1, 0, 1 :: int] (fst (folds ! j)) = Inr y_train \<and>
          classifier_fit demo_env (classifier_clone demo_env (Plain 3)) X_train y_train =
            Inr ([Plain 2, Plain 2] ! j)"
    by auto
  from f(1) have folds: "folds = [([0, 1], [2, 3]), ([2, 3], [0, 1])]"
    by (simp add: demo_env_def)
  from tr folds have
    "classifier_fit demo_env (classifier_clone demo_env (Plain 3)) [[0], [1]] [0, 1] =
       Inr (Plain 2)"
    by (auto simp: fancy_index_def dest: spec[of _ 0])
  with rp rc f show ?thesis by blast
qed

lemma check_calibration_append:
  "check_calibration env (append_entry s c p) = check_calibration env s"
  by (simp add: check_calibration_def append_entry_def)

lemma append_entry_Some:
  "classifiers_' s = Some cl0 \<Longrightarrow> calibrators_' s = Some ca0 \<Longrightarrow>
     append_entry s c p =
       s\<lparr>classifiers_' := Some (cl0 @ [c]), calibrators_' := Some (ca0 @ [p])\<rparr>"
  by (simp add: append_entry_def)

lemma fit_fold_Inr_entry:
  assumes "fit_fold env s base X y train calibrate = Inr s1"
  shows "\<exists>X_train y_train classifier kn kd X_cal y_cal pair.
           fancy_index X train = Inr X_train \<and> fancy_index y train = Inr y_train \<and>
           classifier_fit env (classifier_clone env base) X_train y_train = Inr classifier \<and>
           check_calibration env s = Inr (kn, kd) \<and>
           fancy_index X calibrate = Inr X_cal \<and> fancy_index y calibrate = Inr y_cal \<and>
           calibrate_pair env classifier kn kd X_cal y_cal = Inr pair \<and>
           s1 = append_entry s classifier pair"
  using assms by (auto simp: fit_fold_def split: sum.splits prod.splits)

lemma fit_folds_Returned_entries:
  assumes "fit_folds env s base X y folds = Returned s1"
    and "classifiers_' s = Some cl0" and "calibrators_' s = Some ca0"
  shows "\<exists>cl ca.
           s1 = s\<lparr>classifiers_' := Some (cl0 @ cl), calibrators_' := Some (ca0 @ ca)\<rparr> \<and>
           length cl = length folds \<and> length ca = length folds \<and>
           (\<forall>j<length folds. \<exists>X_train y_train kn kd X_cal y_cal.
              fancy_index X (fst (folds ! j)) = Inr X_train \<and>
              fancy_index y (fst (folds ! j)) = Inr y_train \<and>
              classifier_fit env (classifier_clone env base) X_train y_train = Inr (cl ! j) \<and>
              check_calibration env s = Inr (kn, kd) \<and>
              fancy_index X (snd (folds ! j)) = Inr X_cal \<and>
              fancy_index y (snd (folds ! j)) = Inr y_cal \<and>
              calibrate_pair env (cl ! j) kn kd X_cal y_cal = Inr (ca ! j))"
  using assms
proof (induction folds arbitrary: s cl0 ca0)
  case Nil
  then show ?case by simp
next
  case (Cons fold folds)
  let ?entry = "\<lambda>s fs cl ca j. \<exists>X_train y_train kn kd X_cal y_cal.
      fancy_index X (fst (fs ! j)) = Inr X_train \<and>
      fancy_index y (fst (fs ! j)) = Inr y_train \<and>
      classifier_fit env (classifier_clone env base) X_train y_train = Inr (cl ! j) \<and>
      check_calibration env s = Inr (kn, kd) \<and>
      fancy_index X (snd (fs ! j)) = Inr X_cal \<and>
      fancy_index y (snd (fs ! j)) = Inr y_cal \<and>
      calibrate_pair env (cl ! j) kn kd X_cal y_cal = Inr (ca ! j)"
  obtain train calibrate where fold: "fold = (train, calibrate)" by (cases fold)
  from Cons.prems(1) fold obtain s2 where
    s2: "fit_fold env s base X y train calibrate = Inr s2"
    and rest: "fit_folds env s2 base X y folds = Returned s1"
    by (auto split: sum.splits)
  from fit_fold_Inr_entry[OF s2] obtain X_train y_train classifier kn kd X_cal y_cal pair
    where first: "fancy_index X train = Inr X_train" "fancy_index y train = Inr y_train"
      "classifier_fit env (classifier_clone env base) X_train y_train = Inr classifier"
      "check_calibration env s = Inr (kn, kd)"
      "fancy_index X calibrate = Inr X_cal" "fancy_index y calibrate = Inr y_cal"
      "calibrate_pair env classifier kn kd X_cal y_cal = Inr pair"
    and s2eq: "s2 = append_entry s classifier pair"
    by blast
  have s2rec: "s2 = s\<lparr>classifiers_' := Some (cl0 @ [classifier]),
      calibrators_' := Some (ca0 @ [pair])\<rparr>"
    using s2eq append_entry_Some[OF Cons.prems(2,3)] by simp
  have c2: "classifiers_' s2 = Some (cl0 @ [classifier])"
    and k2: "calibrators_' s2 = Some (ca0 @ [pair])"
    using s2rec by simp_all
  have cc: "check_calibration env s2 = check_calibration env s"
    using s2eq by (simp add: check_calibration_append)
  from Cons.IH[OF rest c2 k2] obtain cl ca where
    s1: "s1 = s2\<lparr>classifiers_' := Some ((cl0 @ [classifier]) @ cl),
        calibrators_' := Some ((ca0 @ [pair]) @ ca)\<rparr>"
    and len: "length cl = length folds" "length ca = length folds"
    and each: "\<forall>j<length folds. ?entry s2 folds cl ca j"
    by blast
  have s1rec: "s1 = s\<lparr>classifiers_' := Some (cl0 @ classifier # cl),
      calibrators_' := Some (ca0 @ pair # ca)\<rparr>"
    using s1 s2rec by simp
  have "\<forall>j<length (fold # folds). ?entry s (fold # folds) (classifier # cl) (pair # ca) j"
  proof (intro allI impI)
    fix j assume j: "j < length (fold # folds)"
    show "?entry s (fold # folds) (classifier # cl) (pair # ca) j"
    proof (cases j)
      case 0
      with first fold show ?thesis by simp
    next
      case (Suc i)
      with j have "i < length folds" by simp
      with each have "?entry s2 folds cl ca i" by blast
      with Suc cc show ?thesis by simp
    qed
  qed
  with s1rec len show ?case
    by (intro exI[of _ "classifier # cl"] exI[of _ "pair # ca"]) simp
qed

lemma fit_folds_Raised_prefix:
  assumes "fit_folds env s base X y folds = Raised e s1"
  shows "\<exists>k<length folds. fit_folds env s base X y (take k folds) = Returned s1 \<and>
           fit_fold env s1 base X y (fst (folds ! k)) (snd (folds ! k)) = Inl e"
  using assms
proof (induction folds arbitrary: s)
  case Nil
  then show ?case by simp
next
  case (Cons fold folds)
  obtain train calibrate where fold: "fold = (train, calibrate)" by (cases fold)
  show ?case
  proof (cases "fit_fold env s base X y train calibrate")
    case (Inl e')
    with Cons.prems fold have "s1 = s" "e' = e" by simp_all
    with Inl fold have "fit_folds env s base X y (take 0 (fold # folds)) = Returned s1 \<and>
        fit_fold env s1 base X y (fst ((fold # folds) ! 0)) (snd ((fold # folds) ! 0)) = Inl e"
      by simp
    then show ?thesis by (intro exI[of _ 0]) simp
  next
    case (Inr s2)
    with Cons.prems fold have "fit_folds env s2 base X y folds = Raised e s1" by simp
    from Cons.IH[OF this] obtain k where
      k: "k < length folds" "fit_folds env s2 base X y (take k folds) = Returned s1"
        "fit_fold env s1 base X y (fst (folds ! k)) (snd (folds ! k)) = Inl e"
      by blast
    with Inr fold have
      "fit_folds env s base X y (take (Suc k) (fold # folds)) = Returned s1 \<and>
       fit_fold env s1 base X y (fst ((fold # folds) ! Suc k)) (snd ((fold # folds) ! Suc k)) =
         Inl e"
      by simp
    with k(1) show ?thesis by (intro exI[of _ "Suc k"]) simp
  qed
qed

lemma fit_Raised_prefix:
  assumes "fit env self X y numerator denominator n_samples = Raised e s"
  shows "(fit_inputs env X y numerator denominator n_samples = Inl e \<and> s = self) \<or>
     (\<exists>X1 y1. fit_inputs env X y numerator denominator n_samples = Inr (X1, y1) \<and>
        (if cv self = CvName ''prefit''
         then s = self\<lparr>classifiers_' := Some [], calibrators_' := Some []\<rparr>
         else (cv_split env (cv self) X1 y1 = Inl e \<and>
               s = self\<lparr>classifiers_' := Some [], calibrators_' := Some []\<rparr>) \<or>
              (\<exists>folds k clfs cals.
                 cv_split env (cv self) X1 y1 = Inr folds \<and> k < length folds \<and>
                 s = self\<lparr>classifiers_' := Some clfs, calibrators_' := Some cals\<rparr> \<and>
                 length clfs = k \<and> length cals = k \<and>
                 (\<forall>j<k. \<exists>X_train y_train kn kd X_cal y_cal.
                    fancy_index X1 (fst (folds ! j)) = Inr X_train \<and>
                    fancy_index y1 (fst (folds ! j)) = Inr y_train \<and>
                    classifier_fit env (classifier_clone env (resolve_base (base_estimator self)))
                      X_train y_train = Inr (clfs ! j) \<and>
                    check_calibration env self = Inr (kn, kd) \<and>
                    fancy_index X1 (snd (folds ! j)) = Inr X_cal \<and>
                    fancy_index y1 (snd (folds ! j)) = Inr y_cal \<and>
                    calibrate_pair env (clfs ! j) kn kd X_cal y_cal = Inr (cals ! j)) \<and>
                 fit_folds env (self\<lparr>classifiers_' := Some [], calibrators_' := Some []\<rparr>)
                   (resolve_base (base_estimator self)) X1 y1 (take k folds) = Returned s \<and>
                 fit_fold env s (resolve_base (base_estimator self)) X1 y1
                   (fst (folds ! k)) (snd (folds ! k)) = Inl e)))"
proof (cases "fit_inputs env X y numerator denominator n_samples")
  case (Inl e')
  with assms show ?thesis by (simp add: fit_def)
next
  case (Inr p)
  obtain X1 y1 where p: "p = (X1, y1)" by (cases p)
  let ?s1 = "self\<lparr>classifiers_' := Some [], calibrators_' := Some []\<rparr>"
  let ?base = "resolve_base (base_estimator self)"
  show ?thesis
  proof (cases "cv self = CvName ''prefit''")
    case True
    with assms Inr p have "fit_prefit env ?s1 ?base X1 y1 = Raised e s"
      by (simp add: fit_def Let_def)
    then have "s = ?s1"
      by (auto simp: fit_prefit_def split: sum.splits prod.splits)
    with Inr p True show ?thesis by simp
  next
    case False
    show ?thesis
    proof (cases "cv_split env (cv self) X1 y1")
      case (Inl e')
      with assms Inr p False have "e' = e \<and> s = ?s1" by (simp add: fit_def Let_def)
      with Inl Inr p False show ?thesis by simp
    next
      case split: (Inr folds)
      with assms Inr p False
      have "fit_folds env ?s1 ?base X1 y1 folds = Raised e s" by (simp add: fit_def Let_def)
      from fit_folds_Raised_prefix[OF this] obtain k where
        k: "k < length folds"
        and pre: "fit_folds env ?s1 ?base X1 y1 (take k folds) = Returned s"
        and bad: "fit_fold env s ?base X1 y1 (fst (folds ! k)) (snd (folds ! k)) = Inl e"
        by blast
      from fit_folds_Returned_entries[OF pre, of "[]" "[]"] obtain cl ca where
        s: "s = ?s1\<lparr>classifiers_' := Some ([] @ cl), calibrators_' := Some ([] @ ca)\<rparr>"
        and len: "length cl = length (take k folds)" "length ca = length (take k folds)"
        and each: "\<forall>j<length (take k folds). \<exists>X_train y_train kn kd X_cal y_cal.
              fancy_index X1 (fst (take k folds ! j)) = Inr X_train \<and>
              fancy_index y1 (fst (take k folds ! j)) = Inr y_train \<and>
              classifier_fit env (classifier_clone env ?base) X_train y_train = Inr (cl ! j) \<and>
              check_calibration env ?s1 = Inr (kn, kd) \<and>
              fancy_index X1 (snd (take k folds ! j)) = Inr X_cal \<and>
              fancy_index y1 (snd (take k folds ! j)) = Inr y_cal \<and>
              calibrate_pair env (cl ! j) kn kd X_cal y_cal = Inr (ca ! j)"
        by auto
      from k have lk: "length (take k folds) = k" by simp
      have srec: "s = self\<lparr>classifiers_' := Some cl, calibrators_' := Some ca\<rparr>"
        using s by simp
      have each': "\<forall>j<k. \<exists>X_train y_train kn kd X_cal y_cal.
              fancy_index X1 (fst (folds ! j)) = Inr X_train \<and>
              fancy_index y1 (fst (folds ! j)) = Inr y_train \<and>
              classifier_fit env (classifier_clone env ?base) X_train y_train = Inr (cl ! j) \<and>
              check_calibration env self = Inr (kn, kd) \<and>
              fancy_index X1 (snd (folds ! j)) = Inr X_cal \<and>
              fancy_index y1 (snd (folds ! j)) = Inr y_cal \<and>
              calibrate_pair env (cl ! j) kn kd X_cal y_cal = Inr (ca ! j)"
        using each lk by (simp add: check_calibration_reset)
      have "\<exists>folds k clfs cals.
                 cv_split env (cv self) X1 y1 = Inr folds \<and> k < length folds \<and>
                 s = self\<lparr>classifiers_' := Some clfs, calibrators_' := Some cals\<rparr> \<and>
                 length clfs = k \<and> length cals = k \<and>
                 (\<forall>j<k. \<exists>X_train y_train kn kd X_cal y_cal.
                    fancy_index X1 (fst (folds ! j)) = Inr X_train \<and>
                    fancy_index y1 (fst (folds ! j)) = Inr y_train \<and>
                    classifier_fit env (classifier_clone env ?base) X_train y_train =
                      Inr (clfs ! j) \<and>
                    check_calibration env self = Inr (kn, kd) \<and>
                    fancy_index X1 (snd (folds ! j)) = Inr X_cal \<and>
                    fancy_index y1 (snd (folds ! j)) = Inr y_cal \<and>
                    calibrate_pair env (clfs ! j) kn kd X_cal y_cal = Inr (cals ! j)) \<and>
                 fit_folds env ?s1 ?base X1 y1 (take k folds) = Returned s \<and>
                 fit_fold env s ?base X1 y1 (fst (folds ! k)) (snd (folds ! k)) = Inl e"
        using split k srec len lk each' pre bad
        by (intro exI[of _ folds] exI[of _ k] exI[of _ cl] exI[of _ ca]) simp
      with Inr p False show ?thesis by simp
    qed
  qed
qed

text \<open>
  Claim C3, as the code has it. \<^verbatim>\<open>fit\<close> is not atomic. When it raises, either the
  exception comes from the argument check or from drawing the samples, and the estimator
  is left as it was; or the sample set was obtained and \<^verbatim>\<open>classifiers_\<close> and
  \<^verbatim>\<open>calibrators_\<close> were replaced by empty lists. In prefit mode, and when the splitter
  raises, they are left empty. Otherwise some fold \<open>k\<close> raised the exception, and the
  estimator is exactly what the loop returns on the \<open>k\<close> folds before it: nothing but the
  two attributes has changed, they hold \<open>k\<close> entries each, and entry \<open>j\<close> is the
  classifier that fitting a clone of the base classifier on the training rows of fold
  \<open>j\<close> returned, with the pair of calibrators fitted on its scores of the calibration
  rows of fold \<open>j\<close>. What the two attributes held before the call is lost: once the sample
  set is there, the outcome of \<^verbatim>\<open>fit\<close> does not depend on them. When \<^verbatim>\<open>fit\<close>
  returns, the ensemble is complete: one entry in prefit mode, one entry per fold otherwise.
\<close>

theorem fit_raise_leaves_prefix:
  "(fit env self X y numerator denominator n_samples = Raised e s \<longrightarrow>
     (fit_inputs env X y numerator denominator n_samples = Inl e \<and> s = self) \<or>
     (\<exists>X1 y1. fit_inputs env X y numerator denominator n_samples = Inr (X1, y1) \<and>
        (if cv self = CvName ''prefit''
         then s = self\<lparr>classifiers_' := Some [], calibrators_' := Some []\<rparr>
         else (cv_split env (cv self) X1 y1 = Inl e \<and>
               s = self\<lparr>classifiers_' := Some [], calibrators_' := Some []\<rparr>) \<or>
              (\<exists>folds k clfs cals.
                 cv_split env (cv self) X1 y1 = Inr folds \<and> k < length folds \<and>
                 s = self\<lparr>classifiers_' := Some clfs, calibrators_' := Some cals\<rparr> \<and>
                 length clfs = k \<and> length cals = k \<and>
                 (\<forall>j<k. \<exists>X_train y_train kn kd X_cal y_cal.
                    fancy_index X1 (fst (folds ! j)) = Inr X_train \<and>
                    fancy_index y1 (fst (folds ! j)) = Inr y_train \<and>
                    classifier_fit env (classifier_clone env (resolve_base (base_estimator self)))
                      X_train y_train = Inr (clfs ! j) \<and>
                    check_calibration env self = Inr (kn, kd) \<and>
                    fancy_index X1 (snd (folds ! j)) = Inr X_cal \<and>
                    fancy_index y1 (snd (folds ! j)) = Inr y_cal \<and>
                    calibrate_pair env (clfs ! j) kn kd X_cal y_cal = Inr (cals ! j)) \<and>
                 fit_folds env (self\<lparr>classifiers_' := Some [], calibrators_' := Some []\<rparr>)
                   (resolve_base (base_estimator self)) X1 y1 (take k folds) = Returned s \<and>
                 fit_fold env s (resolve_base (base_estimator self)) X1 y1
                   (fst (folds ! k)) (snd (folds ! k)) = Inl e)))) \<and>
   (fit env self X y numerator denominator n_samples = Returned s \<longrightarrow>
     (\<exists>X1 y1. fit_inputs env X y numerator denominator n_samples = Inr (X1, y1) \<and>
        (\<exists>clfs cals. classifiers_' s = Some clfs \<and> calibrators_' s = Some cals \<and>
           length clfs = length cals \<and>
           (if cv self = CvName ''prefit'' then length clfs = 1
            else (\<exists>folds. cv_split env (cv self) X1 y1 = Inr folds \<and>
                    length clfs = length folds))))) \<and>
   (fit_inputs env X y numerator denominator n_samples = Inr (X0, y0) \<longrightarrow>
      fit env (self\<lparr>classifiers_' := a, calibrators_' := b\<rparr>)
        X y numerator denominator n_samples =
      fit env self X y numerator denominator n_samples)"
proof (intro conjI impI)
  assume "fit_inputs env X y numerator denominator n_samples = Inr (X0, y0)"
  then show "fit env (self\<lparr>classifiers_' := a, calibrators_' := b\<rparr>)
        X y numerator denominator n_samples =
      fit env self X y numerator denominator n_samples"
    by (simp add: fit_def Let_def)
next
  assume "fit env self X y numerator denominator n_samples = Raised e s"
  from fit_Raised_prefix[OF this]
  show "(fit_inputs env X y numerator denominator n_samples = Inl e \<and> s = self) \<or>
     (\<exists>X1 y1. fit_inputs env X y numerator denominator n_samples = Inr (X1, y1) \<and>
        (if cv self = CvName ''prefit''
         then s = self\<lparr>classifiers_' := Some [], calibrators_' := Some []\<rparr>
         else (cv_split env (cv self) X1 y1 = Inl e \<and>
               s = self\<lparr>classifiers_' := Some [], calibrators_' := Some []\<rparr>) \<or>
              (\<exists>folds k clfs cals.
                 cv_split env (cv self) X1 y1 = Inr folds \<and> k < length folds \<and>
                 s = self\<lparr>classifiers_' := Some clfs, calibrators_' := Some cals\<rparr> \<and>
                 length clfs = k \<and> length cals = k \<and>
                 (\<forall>j<k. \<exists>X_train y_train kn kd X_cal y_cal.
                    fancy_index X1 (fst (folds ! j)) = Inr X_train \<and>
                    fancy_index y1 (fst (folds ! j)) = Inr y_train \<and>
                    classifier_fit env (classifier_clone env (resolve_base (base_estimator self)))
                      X_train y_train = Inr (clfs ! j) \<and>
                    check_calibration env self = Inr (kn, kd) \<and>
                    fancy_index X1 (snd (folds ! j)) = Inr X_cal \<and>
                    fancy_index y1 (snd (folds ! j)) = Inr y_cal \<and>
                    calibrate_pair env (clfs ! j) kn kd X_cal y_cal = Inr (cals ! j)) \<and>
                 fit_folds env (self\<lparr>classifiers_' := Some [], calibrators_' := Some []\<rparr>)
                   (resolve_base (base_estimator self)) X1 y1 (take k folds) = Returned s \<and>
                 fit_fold env s (resolve_base (base_estimator self)) X1 y1
                   (fst (folds ! k)) (snd (folds ! k)) = Inl e)))" .
next
  assume "fit env self X y numerator denominator n_samples = Returned s"
  from fit_Returned_cases[OF this] obtain X1 y1 clfs cals where
    a: "fit_inputs env X y numerator denominator n_samples = Inr (X1, y1)"
      "classifiers_' s = Some clfs" "calibrators_' s = Some cals" "length clfs = length cals"
    and b: "if cv self = CvName ''prefit''
         then (\<exists>c kn kd. base_estimator self = Classifier c \<and> clfs = [c] \<and>
                 check_calibration env self = Inr (kn, kd) \<and>
                 calibrate_pair env c kn kd X1 y1 = Inr (cals ! 0) \<and> length cals = 1)
         else (\<exists>folds. cv_split env (cv self) X1 y1 = Inr folds \<and>
                 length clfs = length folds \<and>
                 (\<forall>j<length folds. \<exists>X_train y_train.
                    fancy_index X1 (fst (folds ! j)) = Inr X_train \<and>
                    fancy_index y1 (fst (folds ! j)) = Inr y_train \<and>
                    classifier_fit env (classifier_clone env (resolve_base (base_estimator self)))
                      X_train y_train = Inr (clfs ! j)))"
    by blast
  from b have "if cv self = CvName ''prefit'' then length clfs = 1
      else (\<exists>folds. cv_split env (cv self) X1 y1 = Inr folds \<and> length clfs = length folds)"
    by (auto split: if_splits)
  with a show "\<exists>X1 y1. fit_inputs env X y numerator denominator n_samples = Inr (X1, y1) \<and>
        (\<exists>clfs cals. classifiers_' s = Some clfs \<and> calibrators_' s = Some cals \<and>
           length clfs = length cals \<and>
           (if cv self = CvName ''prefit'' then length clfs = 1
            else (\<exists>folds. cv_split env (cv self) X1 y1 = Inr folds \<and>
                    length clfs = length folds)))"
    by blast
qed

text \<open>Six labelled rows, a regressor as base estimator and two folds: the first fold is
  completed, the training rows of the second carry a single label and the wrapper's
  \<^verbatim>\<open>fit\<close> raises. The estimator is left with the entry of the first fold: it is what
  the loop returns on the first fold alone, and the second fold raises from there.\<close>

theorem fit_raise_leaves_prefix_witness:
  "fit demo_env (demo_ratio (Regressor 0) (CvOther [([0, 1], [2, 3]), ([4, 5], [0, 1])]))
     (Some [[0], [1], [2], [3], [4], [5]]) (Some [0, 1, 0, 1, 0, 0]) None None None =
     Raised ValueError
       ((demo_ratio (Regressor 0) (CvOther [([0, 1], [2, 3]), ([4, 5], [0, 1])]))
          \<lparr>classifiers_' :=
             Some [Wrapped \<lparr>regressor = 0, classes_' = Some [0, 1], regressor_' = Some 2\<rparr>],
           calibrators_' := Some [(Some [0], Some [0])]\<rparr>) \<and>
   fit_inputs demo_env (Some [[0], [1], [2], [3], [4], [5]]) (Some [0, 1, 0, 1, 0, 0])
     None None None \<noteq> Inl ValueError \<and>
   (\<exists>folds k.
      cv_split demo_env (CvOther [([0, 1], [2, 3]), ([4, 5], [0, 1])])
        [[0], [1], [2], [3], [4], [5]] [0, 1, 0, 1, 0, 0] = Inr folds \<and>
      k < length folds \<and>
      length [Wrapped \<lparr>regressor = 0 :: nat, classes_' = Some [0, 1], regressor_' = Some 2\<rparr>]
        = k \<and>
      fit_folds demo_env
        ((demo_ratio (Regressor 0) (CvOther [([0, 1], [2, 3]), ([4, 5], [0, 1])]))
           \<lparr>classifiers_' := Some [], calibrators_' := Some []\<rparr>)
        (Wrapped (WrapAsClassifier_init 0))
        [[0], [1], [2], [3], [4], [5]] [0, 1, 0, 1, 0, 0] (take k folds) =
        Returned
          ((demo_ratio (Regressor 0) (CvOther [([0, 1], [2, 3]), ([4, 5], [0, 1])]))
             \<lparr>classifiers_' :=
                Some [Wrapped \<lparr>regressor = 0, classes_' = Some [0, 1], regressor_' = Some 2\<rparr>],
              calibrators_' := Some [(Some [0], Some [0])]\<rparr>)) \<and>
   fit demo_env (demo_ratio (Classifier (Plain 3)) (CvName ''prefit''))
     (Some [[0], [1]]) (Some [0, 1]) None None None =
     Returned ((demo_ratio (Classifier (Plain 3)) (CvName ''prefit''))
       \<lparr>classifiers_' := Some [Plain 3],
        calibrators_' := Some [(Some [1 / 2], Some [1 / 2])]\<rparr>) \<and>
   (\<exists>clfs. classifiers_' ((demo_ratio (Classifier (Plain 3)) (CvName ''prefit''))
       \<lparr>classifiers_' := Some [Plain 3],
        calibrators_' := Some [(Some [1 / 2], Some [1 / 2])]\<rparr>) = Some clfs \<and>
      length clfs = 1) \<and>
   fit demo_env
     ((demo_ratio (Regressor 0) (CvOther [([0, 1], [2, 3]), ([4, 5], [0, 1])]))
        \<lparr>classifiers_' := Some [Plain 9], calibrators_' := Some [(None, None)]\<rparr>)
     (Some [[0], [1], [2], [3], [4], [5]]) (Some [0, 1, 0, 1, 0, 0]) None None None =
     Raised ValueError
       ((demo_ratio (Regressor 0) (CvOther [([0, 1], [2, 3]), ([4, 5], [0, 1])]))
          \<lparr>classifiers_' :=
             Some [Wrapped \<lparr>regressor = 0, classes_' = Some [0, 1], regressor_' = Some 2\<rparr>],
           calibrators_' := Some [(Some [0], Some [0])]\<rparr>)"
proof -
  let ?p = "demo_ratio (Classifier (Plain 3)) (CvName ''prefit'')"
  let ?sp = "?p\<lparr>classifiers_' := Some [Plain 3],
      calibrators_' := Some [(Some [1 / 2], Some [1 / 2])]\<rparr>"
  have rp: "fit demo_env ?p (Some [[0], [1]]) (Some [0, 1]) None None None = Returned ?sp"
    by (simp add: fit_def Let_def fit_prefit_def calibrate_pair_def class_scores_def
        check_calibration_def append_entry_def demo_ratio_def demo_env_def
        boolean_index_def column0_def reshape_col_def)
  have cvp: "cv ?p = CvName ''prefit''" by (simp add: demo_ratio_def)
  from fit_raise_leaves_prefix
    [of demo_env ?p "Some [[0], [1]]" "Some [0, 1]" None None None _ ?sp,
      THEN conjunct2, THEN conjunct1, THEN mp, OF rp] cvp
  have one: "\<exists>clfs. classifiers_' ?sp = Some clfs \<and> length clfs = 1"
    by auto
  let ?self = "demo_ratio (Regressor 0) (CvOther [([0, 1], [2, 3]), ([4, 5], [0, 1])])"
  let ?w = "Wrapped \<lparr>regressor = 0 :: nat, classes_' = Some [0, 1], regressor_' = Some 2\<rparr>"
  let ?s = "?self\<lparr>classifiers_' := Some [?w], calibrators_' := Some [(Some [0], Some [0])]\<rparr>"
  let ?X = "Some [[0], [1], [2], [3], [4], [5 :: real]]"
  let ?y = "Some [0, 1, 0, 1, 0, 0 :: int]"
  have r: "fit demo_env ?self ?X ?y None None None = Raised ValueError ?s"
    by (simp add: fit_def fit_fold_def calibrate_pair_def class_scores_def
        check_calibration_def append_entry_def demo_ratio_def demo_env_def fancy_index_def
        boolean_index_def column0_def reshape_col_def WrapAsClassifier_fit_def
        WrapAsClassifier_predict_proba_def WrapAsClassifier_init_def check_X_y_def
        check_array_def label_classes_def label_transform_def set_column_def np_clip_def)
  have n: "fit_inputs demo_env ?X ?y None None None \<noteq> Inl ValueError" by simp
  have i: "fit_inputs demo_env ?X ?y None None None =
      Inr ([[0], [1], [2], [3], [4], [5]], [0, 1, 0, 1, 0, 0])"
    by simp
  have c: "cv ?self \<noteq> CvName ''prefit''"
    by (simp add: demo_ratio_def)
  have c2: "cv ?self = CvOther [([0, 1], [2, 3]), ([4, 5], [0, 1])]"
    "resolve_base (base_estimator ?self) = Wrapped (WrapAsClassifier_init 0)"
    by (simp_all add: demo_ratio_def)
  have sp: "cv_split demo_env (CvOther [([0, 1], [2, 3]), ([4, 5], [0, 1])])
      [[0], [1], [2], [3], [4], [5]] [0, 1, 0, 1, 0, 0] \<noteq> Inl ValueError"
    by (simp add: demo_env_def)
  note T = fit_raise_leaves_prefix
    [of demo_env ?self ?X ?y None None None ValueError ?s, THEN conjunct1, THEN mp, OF r]
  from T n have T2: "\<exists>X1 y1. fit_inputs demo_env ?X ?y None None None = Inr (X1, y1) \<and>
        (if cv ?self = CvName ''prefit''
         then ?s = ?self\<lparr>classifiers_' := Some [], calibrators_' := Some []\<rparr>
         else (cv_split demo_env (cv ?self) X1 y1 = Inl ValueError \<and>
               ?s = ?self\<lparr>classifiers_' := Some [], calibrators_' := Some []\<rparr>) \<or>
              (\<exists>folds k clfs cals.
                 cv_split demo_env (cv ?self) X1 y1 = Inr folds \<and> k < length folds \<and>
                 ?s = ?self\<lparr>classifiers_' := Some clfs, calibrators_' := Some cals\<rparr> \<and>
                 length clfs = k \<and> length cals = k \<and>
                 (\<forall>j<k. \<exists>X_train y_train kn kd X_cal y_cal.
                    fancy_index X1 (fst (folds ! j)) = Inr X_train \<and>
                    fancy_index y1 (fst (folds ! j)) = Inr y_train \<and>
                    classifier_fit demo_env (classifier_clone demo_env (resolve_base (base_estimator ?self)))
                      X_train y_train = Inr (clfs ! j) \<and>
                    check_calibration demo_env ?self = Inr (kn, kd) \<and>
                    fancy_index X1 (snd (folds ! j)) = Inr X_cal \<and>
                    fancy_index y1 (snd (folds ! j)) = Inr y_cal \<and>
                    calibrate_pair demo_env (clfs ! j) kn kd X_cal y_cal = Inr (cals ! j)) \<and>
                 fit_folds demo_env (?self\<lparr>classifiers_' := Some [], calibrators_' := Some []\<rparr>)
                   (resolve_base (base_estimator ?self)) X1 y1 (take k folds) = Returned ?s \<and>
                 fit_fold demo_env ?s (resolve_base (base_estimator ?self)) X1 y1
                   (fst (folds ! k)) (snd (folds ! k)) = Inl ValueError))"
    by (elim disjE) simp_all
  then obtain X1 y1 where
    a: "fit_inputs demo_env ?X ?y None None None = Inr (X1, y1)"
    and b: "(cv_split demo_env (cv ?self) X1 y1 = Inl ValueError \<and>
               ?s = ?self\<lparr>classifiers_' := Some [], calibrators_' := Some []\<rparr>) \<or>
              (\<exists>folds k clfs cals.
                 cv_split demo_env (cv ?self) X1 y1 = Inr folds \<and> k < length folds \<and>
                 ?s = ?self\<lparr>classifiers_' := Some clfs, calibrators_' := Some cals\<rparr> \<and>
                 length clfs = k \<and> length cals = k \<and>
                 (\<forall>j<k. \<exists>X_train y_train kn kd X_cal y_cal.
                    fancy_index X1 (fst (folds ! j)) = Inr X_train \<and>
                    fancy_index y1 (fst (folds ! j)) = Inr y_train \<and>
                    classifier_fit demo_env (classifier_clone demo_env (resolve_base (base_estimator ?self)))
                      X_train y_train = Inr (clfs ! j) \<and>
                    check_calibration demo_env ?self = Inr (kn, kd) \<and>
                    fancy_index X1 (snd (folds ! j)) = Inr X_cal \<and>
                    fancy_index y1 (snd (folds ! j)) = Inr y_cal \<and>
                    calibrate_pair demo_env (clfs ! j) kn kd X_cal y_cal = Inr (cals ! j)) \<and>
                 fit_folds demo_env (?self\<lparr>classifiers_' := Some [], calibrators_' := Some []\<rparr>)
                   (resolve_base (base_estimator ?self)) X1 y1 (take k folds) = Returned ?s \<and>
                 fit_fold demo_env ?s (resolve_base (base_estimator ?self)) X1 y1
                   (fst (folds ! k)) (snd (folds ! k)) = Inl ValueError)"
    using c by (elim exE conjE) (simp only: if_False)
  from a have xy: "X1 = [[0], [1], [2], [3], [4], [5]]" "y1 = [0, 1, 0, 1, 0, 0]" by simp_all
  from b sp c2(1) xy obtain folds k clfs cals where
    f: "cv_split demo_env (cv ?self) X1 y1 = Inr folds" "k < length folds"
      "?s = ?self\<lparr>classifiers_' := Some clfs, calibrators_' := Some cals\<rparr>"
      "length clfs = k"
      "fit_folds demo_env (?self\<lparr>classifiers_' := Some [], calibrators_' := Some []\<rparr>)
         (resolve_base (base_estimator ?self)) X1 y1 (take k folds) = Returned ?s"
    by (elim disjE exE conjE) simp_all
  from arg_cong[OF f(3), of classifiers_'] have w: "clfs = [?w]" by simp
  from f w xy c2 have pre: "\<exists>folds k.
      cv_split demo_env (CvOther [([0, 1], [2, 3]), ([4, 5], [0, 1])])
        [[0], [1], [2], [3], [4], [5]] [0, 1, 0, 1, 0, 0] = Inr folds \<and>
      k < length folds \<and> length [?w] = k \<and>
      fit_folds demo_env (?self\<lparr>classifiers_' := Some [], calibrators_' := Some []\<rparr>)
        (Wrapped (WrapAsClassifier_init 0))
        [[0], [1], [2], [3], [4], [5]] [0, 1, 0, 1, 0, 0] (take k folds) = Returned ?s"
    by (intro exI[of _ folds] exI[of _ k]) simp
  have "fit demo_env (?self\<lparr>classifiers_' := Some [Plain 9],
      calibrators_' := Some [(None, None)]\<rparr>) ?X ?y None None None = Raised ValueError ?s"
    using fit_raise_leaves_prefix
      [of demo_env ?self ?X ?y None None None,
        where a = "Some [Plain 9]" and b = "Some [(None, None)]",
        THEN conjunct2, THEN conjunct2, THEN mp, OF i] r
    by simp
  with pre show ?thesis using r n rp one by blast
qed

text \<open>The claim says that a call of \<^verbatim>\<open>fit\<close> that raises leaves \<^verbatim>\<open>classifiers_\<close> and
  \<^verbatim>\<open>calibrators_\<close> as they were and no partial ensemble behind. On the input above
  \<^verbatim>\<open>fit\<close> raises, the estimator had no \<^verbatim>\<open>classifiers_\<close> before the call and has one
  entry, for two folds, after it.\<close>

theorem fit_raise_leaves_prefix_counterexample:
  "classifiers_' (demo_ratio (Regressor 0) (CvOther [([0, 1], [2, 3]), ([4, 5], [0, 1])])) = None \<and>
   calibrators_' (demo_ratio (Regressor 0) (CvOther [([0, 1], [2, 3]), ([4, 5], [0, 1])])) = None \<and>
   fit demo_env (demo_ratio (Regressor 0) (CvOther [([0, 1], [2, 3]), ([4, 5], [0, 1])]))
     (Some [[0], [1], [2], [3], [4], [5]]) (Some [0, 1, 0, 1, 0, 0]) None None None =
     Raised ValueError
       \<lparr>base_estimator = Regressor 0, calibration = CalibrationName ''histogram'',
        cv = CvOther [([0, 1], [2, 3]), ([4, 5], [0, 1])], decompose = False,
        classifiers_' =
          Some [Wrapped \<lparr>regressor = 0, classes_' = Some [0, 1], regressor_' = Some 2\<rparr>],
        calibrators_' = Some [(Some [0], Some [0])]\<rparr>"
  by (simp add: fit_def fit_fold_def calibrate_pair_def class_scores_def
      check_calibration_def append_entry_def demo_ratio_def demo_env_def fancy_index_def
      boolean_index_def column0_def reshape_col_def WrapAsClassifier_fit_def
      WrapAsClassifier_predict_proba_def WrapAsClassifier_init_def check_X_y_def
      check_array_def label_classes_def label_transform_def set_column_def np_clip_def)

section \<open>The sample set of the generative mode\<close>

lemma draw_samples_Inr:
  assumes "draw_samples env numerator denominator n = Inr (X, y)"
  shows "\<exists>A B. rvs env numerator (n div 2) = Inr A \<and> rvs env denominator (n div 2) = Inr B \<and>
           X = A @ B \<and> 0 \<le> n \<and>
           y = replicate (nat (n div 2)) 0 @ replicate (nat n - nat (n div 2)) 1"
proof -
  from assms obtain A B y0 where
    ab: "rvs env numerator (n div 2) = Inr A" "rvs env denominator (n div 2) = Inr B"
    and st: "np_vstack A B = Inr X"
    and z: "np_zeros n = Inr y0" and y: "y = assign_from (n div 2) 1 y0"
    by (auto simp: draw_samples_def split: sum.splits)
  from st have X: "X = A @ B" by (auto simp: np_vstack_def split: if_splits)
  from z have n: "0 \<le> n" and y0: "y0 = replicate (nat n) 0"
    by (auto simp: np_zeros_def split: if_splits)
  from n have "nat (n div 2) \<le> nat n" by simp
  with y y0 have "y = replicate (nat (n div 2)) 0 @ replicate (nat n - nat (n div 2)) 1"
    by (simp add: assign_from_def min_def)
  with ab X n show ?thesis by blast
qed

text \<open>When each distribution answers \<^verbatim>\<open>rvs(k)\<close> with \<open>k\<close> rows, the label vector has
  \<open>n_samples\<close> entries, \<open>n_samples // 2\<close> zeros followed by the ones, and the sample matrix
  has twice \<open>n_samples // 2\<close> rows: one row fewer than there are labels when
  \<open>n_samples\<close> is odd.\<close>

lemma draw_samples_lengths:
  assumes "draw_samples env numerator denominator n = Inr (X, y)"
    and "\<And>d k M. rvs env d k = Inr M \<Longrightarrow> length M = nat k"
  shows "length y = nat n \<and> length X = 2 * nat (n div 2) \<and>
         y = replicate (nat (n div 2)) 0 @ replicate (nat n - nat (n div 2)) 1 \<and>
         (odd n \<longrightarrow> length X + 1 = length y)"
proof -
  from draw_samples_Inr[OF assms(1)] obtain A B where
    ab: "rvs env numerator (n div 2) = Inr A" "rvs env denominator (n div 2) = Inr B"
    and X: "X = A @ B" and n: "0 \<le> n"
    and y: "y = replicate (nat (n div 2)) 0 @ replicate (nat n - nat (n div 2)) 1"
    by blast
  from ab assms(2) have l: "length A = nat (n div 2)" "length B = nat (n div 2)" by auto
  from n have le: "nat (n div 2) \<le> nat n" by simp
  from y le have ly: "length y = nat n" by simp
  from X l have lX: "length X = 2 * nat (n div 2)" by simp
  have "odd n \<longrightarrow> 2 * nat (n div 2) + 1 = nat n"
  proof
    assume "odd n"
    then obtain k where k: "n = 2 * k + 1" by (auto elim: oddE)
    with n have "0 \<le> k" by simp
    with k show "2 * nat (n div 2) + 1 = nat n" by simp
  qed
  with ly lX y show ?thesis by simp
qed

lemma demo_draw_samples:
  assumes "0 \<le> n"
  shows "fit_inputs demo_env None None (Some a) (Some b) (Some n) =
           Inr (replicate (nat (n div 2)) [a] @ replicate (nat (n div 2)) [b],
                replicate (nat (n div 2)) 0 @ replicate (nat n - nat (n div 2)) 1)"
proof -
  from assms have d: "0 \<le> n div 2" and le: "nat (n div 2) \<le> nat n" by simp_all
  have h: "hd (replicate (nat (n div 2)) [a] @ replicate (nat (n div 2)) [b]) = [a] \<or>
      nat (n div 2) = 0"
    by (cases "nat (n div 2)") simp_all
  from assms d le h show ?thesis
    by (auto simp: draw_samples_def demo_env_def np_vstack_def np_zeros_def assign_from_def
        list_all_iff min_def)
qed

text \<open>
  Claim C1. For \<open>n_samples = 100\<close> the generative mode draws 50 rows from each
  distribution and labels them with 50 zeros followed by 50 ones. For \<open>n_samples = 101\<close>
  the label vector has 50 zeros followed by 51 ones, as the claim says, but the code asks
  the denominator for \<open>101 // 2 = 50\<close> rows too: 100 samples are drawn, not 101, and the
  denominator block of the sample matrix has 50 rows, not 51.
\<close>

theorem generative_mode_101:
  "fit_inputs demo_env None None (Some 1) (Some 2) (Some 100) =
     Inr (replicate 50 [1] @ replicate 50 [2], replicate 50 0 @ replicate 50 1) \<and>
   fit_inputs demo_env None None (Some 1) (Some 2) (Some 101) =
     Inr (replicate 50 [1] @ replicate 50 [2], replicate 50 0 @ replicate 51 1)"
  using demo_draw_samples[of 100 1 2] demo_draw_samples[of 101 1 2] by simp

text \<open>
  Claim C2. For \<open>n_samples = 3\<close> the generative mode builds a sample matrix of two rows
  and a label vector of three entries, so \<open>len(X) = len(y)\<close> fails; \<^verbatim>\<open>fit\<close> then
  raises, in prefit mode when it indexes \<open>X\<close> by the mask \<open>y == 0\<close>, otherwise when the
  splitter is given arrays of different lengths.
\<close>

theorem generative_mode_odd_mismatch:
  "fit_inputs demo_env None None (Some 1) (Some 2) (Some 3) = Inr ([[1], [2]], [0, 1, 1]) \<and>
   length [[1], [2 :: real]] + 1 = length [0, 1, 1 :: int] \<and>
   fit demo_env (demo_ratio (Classifier (Plain 3)) (CvName ''prefit''))
     None None (Some 1) (Some 2) (Some 3) =
     Raised IndexError ((demo_ratio (Classifier (Plain 3)) (CvName ''prefit''))
       \<lparr>classifiers_' := Some [], calibrators_' := Some []\<rparr>) \<and>
   fit demo_env (demo_ratio (Classifier (Plain 3)) (CvOther [([0, 1], [0, 1])]))
     None None (Some 1) (Some 2) (Some 3) =
     Raised ValueError ((demo_ratio (Classifier (Plain 3)) (CvOther [([0, 1], [0, 1])]))
       \<lparr>classifiers_' := Some [], calibrators_' := Some []\<rparr>)"
proof -
  have i: "fit_inputs demo_env None None (Some 1) (Some 2) (Some 3) =
      Inr ([[1], [2]], [0, 1, 1])"
    using demo_draw_samples[of 3 1 2] by (simp add: eval_nat_numeral)
  then show ?thesis
    by (simp add: fit_def Let_def fit_prefit_def calibrate_pair_def class_scores_def
        check_calibration_def demo_ratio_def boolean_index_def)
      (simp add: demo_env_def)
qed

section \<open>Properties of CalibratedClassifierRatio.predict\<close>

lemma iadd_same_length:
  "length v = length r \<Longrightarrow> iadd r v = Inr (map (\<lambda>(x, y). np_add x y) (zip r v))"
  by (simp add: iadd_def)

lemma predict_loop_sum:
  assumes "length cs = length entries"
    and "\<forall>j<length entries. contribution env lg X (entries ! j) = Inr (cs ! j) \<and>
           length (cs ! j) = length r"
  shows "predict_loop env lg X r entries =
           Inr (map (\<lambda>i. foldl np_add (r ! i) (map (\<lambda>c. c ! i) cs)) [0..<length r])"
  using assms
proof (induction entries arbitrary: r cs)
  case Nil
  then show ?case by (simp add: map_nth)
next
  case (Cons entry entries)
  from Cons.prems(1) obtain c cs1 where cs: "cs = c # cs1" by (cases cs) auto
  from Cons.prems(2) cs have c: "contribution env lg X entry = Inr c" "length c = length r"
    by auto
  let ?r1 = "map (\<lambda>(x, y). np_add x y) (zip r c)"
  have l1: "length ?r1 = length r" using c by simp
  have rest: "\<forall>j<length entries. contribution env lg X (entries ! j) = Inr (cs1 ! j) \<and>
      length (cs1 ! j) = length ?r1"
  proof (intro allI impI)
    fix j assume "j < length entries"
    then have "Suc j < length (entry # entries)" by simp
    with Cons.prems(2) cs l1 show "contribution env lg X (entries ! j) = Inr (cs1 ! j) \<and>
      length (cs1 ! j) = length ?r1"
      by fastforce
  qed
  from Cons.prems(1) cs have "length cs1 = length entries" by simp
  from Cons.IH[OF this rest] have
    "predict_loop env lg X ?r1 entries =
       Inr (map (\<lambda>i. foldl np_add (?r1 ! i) (map (\<lambda>c. c ! i) cs1)) [0..<length ?r1])" .
  moreover have "map (\<lambda>i. foldl np_add (?r1 ! i) (map (\<lambda>c. c ! i) cs1)) [0..<length ?r1] =
      map (\<lambda>i. foldl np_add (r ! i) (map (\<lambda>c. c ! i) cs)) [0..<length r]"
    using c cs by (auto simp: l1)
  ultimately show ?case using c by (simp add: iadd_same_length)
qed

lemma predict_sum:
  assumes "classifiers_' self = Some clfs" "calibrators_' self = Some cals"
    and "length cals = length clfs"
    and "\<forall>j<length clfs. contribution env lg X (clfs ! j, cals ! j) = Inr (c j) \<and>
           length (c j) = length X"
  shows "predict env self X lg =
           Inr (map (\<lambda>i. arith_mean (map (\<lambda>j. c j ! i) [0..<length clfs])) [0..<length X])"
proof -
  let ?cs = "map c [0..<length clfs]"
  have "length ?cs = length (zip clfs cals)" using assms(3) by simp
  moreover have "\<forall>j<length (zip clfs cals).
      contribution env lg X (zip clfs cals ! j) = Inr (?cs ! j) \<and>
      length (?cs ! j) = length (replicate (length X) (Fin 0))"
    using assms(3,4) by simp
  ultimately have "predict_loop env lg X (replicate (length X) (Fin 0)) (zip clfs cals) =
      Inr (map (\<lambda>i. foldl np_add (replicate (length X) (Fin 0) ! i) (map (\<lambda>c. c ! i) ?cs))
             [0..<length (replicate (length X) (Fin 0))])"
    by (rule predict_loop_sum)
  then have "predict_loop env lg X (replicate (length X) (Fin 0)) (zip clfs cals) =
      Inr (map (\<lambda>i. foldl np_add (Fin 0) (map (\<lambda>j. c j ! i) [0..<length clfs]))
             [0..<length X])"
    by (simp add: comp_def cong: map_cong)
  with assms(1,2) show ?thesis
    by (simp add: predict_def arith_mean_def comp_def)
qed

lemma contribution_pdf:
  assumes "classifier_predict_proba env clf X = Inr P" "column0 P = Inr p"
    and "cal_pdf env kn (reshape_col p) = Inr a" "cal_pdf env kd (reshape_col p) = Inr b"
    and "length a = length b"
  shows "contribution env False X (clf, kn, kd) = Inr (map (\<lambda>(x, y). np_div x y) (zip a b))"
  using assms by (simp add: contribution_def broadcast2_def)

lemma contribution_nnlf:
  assumes "classifier_predict_proba env clf X = Inr P" "column0 P = Inr p"
    and "cal_nnlf env kn (reshape_col p) = Inr a" "cal_nnlf env kd (reshape_col p) = Inr b"
    and "length a = length b"
  shows "contribution env True X (clf, kn, kd) =
           Inr (map (\<lambda>(x, y). np_add (np_neg x) y) (zip a b))"
  using assms by (auto simp: contribution_def broadcast2_def zip_map1)

text \<open>
  Claim C4. Take a fitted ensemble, with as many pairs of calibrators as classifiers, and
  an input \<open>X\<close> on which every classifier answers a probability matrix, whose column 0
  is \<open>p j\<close> for entry \<open>j\<close>. If the calibrators of every entry answer \<^verbatim>\<open>pdf(p)\<close> with one
  density per point, \<open>pn j\<close> and \<open>pd j\<close>, then \<^verbatim>\<open>predict(X, log=False)\<close> returns, for
  point \<open>i\<close>, the arithmetic mean over the entries of \<open>pn j ! i / pd j ! i\<close>. If they
  answer \<^verbatim>\<open>nnlf(p)\<close> with one value per point, \<open>nn j\<close> and \<open>nd j\<close>, then
  \<^verbatim>\<open>predict(X, log=True)\<close> returns the arithmetic mean of \<open>- nn j ! i + nd j ! i\<close>.
\<close>

theorem predict_mean:
  assumes "classifiers_' self = Some clfs" and "calibrators_' self = Some cals"
    and "length cals = length clfs"
    and "\<forall>j<length clfs. \<exists>P. classifier_predict_proba env (clfs ! j) X = Inr P \<and>
           column0 P = Inr (p j)"
  shows
    "((\<forall>j<length clfs.
         cal_pdf env (fst (cals ! j)) (reshape_col (p j)) = Inr (pn j) \<and>
         cal_pdf env (snd (cals ! j)) (reshape_col (p j)) = Inr (pd j) \<and>
         length (pn j) = length X \<and> length (pd j) = length X) \<longrightarrow>
      predict env self X False =
        Inr (map (\<lambda>i. arith_mean (map (\<lambda>j. np_div (pn j ! i) (pd j ! i)) [0..<length clfs]))
               [0..<length X])) \<and>
     ((\<forall>j<length clfs.
         cal_nnlf env (fst (cals ! j)) (reshape_col (p j)) = Inr (nn j) \<and>
         cal_nnlf env (snd (cals ! j)) (reshape_col (p j)) = Inr (nd j) \<and>
         length (nn j) = length X \<and> length (nd j) = length X) \<longrightarrow>
      predict env self X True =
        Inr (map (\<lambda>i. arith_mean (map (\<lambda>j. np_add (np_neg (nn j ! i)) (nd j ! i))
                                   [0..<length clfs]))
               [0..<length X]))"
proof (intro conjI impI)
  assume h: "\<forall>j<length clfs.
         cal_pdf env (fst (cals ! j)) (reshape_col (p j)) = Inr (pn j) \<and>
         cal_pdf env (snd (cals ! j)) (reshape_col (p j)) = Inr (pd j) \<and>
         length (pn j) = length X \<and> length (pd j) = length X"
  let ?c = "\<lambda>j. map (\<lambda>(x, y). np_div x y) (zip (pn j) (pd j))"
  have "\<forall>j<length clfs. contribution env False X (clfs ! j, cals ! j) = Inr (?c j) \<and>
      length (?c j) = length X"
  proof (intro allI impI)
    fix j assume j: "j < length clfs"
    with assms(4) obtain P where
      "classifier_predict_proba env (clfs ! j) X = Inr P" "column0 P = Inr (p j)" by blast
    with h j contribution_pdf[of env "clfs ! j" X P "p j" "fst (cals ! j)" "pn j"
        "snd (cals ! j)" "pd j"]
    show "contribution env False X (clfs ! j, cals ! j) = Inr (?c j) \<and>
      length (?c j) = length X"
      by simp
  qed
  moreover have "\<And>i j. i < length X \<Longrightarrow> j < length clfs \<Longrightarrow>
      ?c j ! i = np_div (pn j ! i) (pd j ! i)"
    using h by simp
  then have "map (\<lambda>i. arith_mean (map (\<lambda>j. ?c j ! i) [0..<length clfs])) [0..<length X] =
      map (\<lambda>i. arith_mean (map (\<lambda>j. np_div (pn j ! i) (pd j ! i)) [0..<length clfs]))
        [0..<length X]"
    by (intro map_cong refl arg_cong[where f = arith_mean]) simp
  ultimately
  show "predict env self X False =
        Inr (map (\<lambda>i. arith_mean (map (\<lambda>j. np_div (pn j ! i) (pd j ! i)) [0..<length clfs]))
               [0..<length X])"
    using predict_sum[OF assms(1,2,3), of env False X ?c] by simp
next
  assume h: "\<forall>j<length clfs.
         cal_nnlf env (fst (cals ! j)) (reshape_col (p j)) = Inr (nn j) \<and>
         cal_nnlf env (snd (cals ! j)) (reshape_col (p j)) = Inr (nd j) \<and>
         length (nn j) = length X \<and> length (nd j) = length X"
  let ?c = "\<lambda>j. map (\<lambda>(x, y). np_add (np_neg x) y) (zip (nn j) (nd j))"
  have "\<forall>j<length clfs. contribution env True X (clfs ! j, cals ! j) = Inr (?c j) \<and>
      length (?c j) = length X"
  proof (intro allI impI)
    fix j assume j: "j < length clfs"
    with assms(4) obtain P where
      "classifier_predict_proba env (clfs ! j) X = Inr P" "column0 P = Inr (p j)" by blast
    with h j contribution_nnlf[of env "clfs ! j" X P "p j" "fst (cals ! j)" "nn j"
        "snd (cals ! j)" "nd j"]
    show "contribution env True X (clfs ! j, cals ! j) = Inr (?c j) \<and>
      length (?c j) = length X"
      by simp
  qed
  moreover have "\<And>i j. i < length X \<Longrightarrow> j < length clfs \<Longrightarrow>
      ?c j ! i = np_add (np_neg (nn j ! i)) (nd j ! i)"
    using h by simp
  then have "map (\<lambda>i. arith_mean (map (\<lambda>j. ?c j ! i) [0..<length clfs])) [0..<length X] =
      map (\<lambda>i. arith_mean (map (\<lambda>j. np_add (np_neg (nn j ! i)) (nd j ! i))
                                [0..<length clfs]))
        [0..<length X]"
    by (intro map_cong refl arg_cong[where f = arith_mean]) simp
  ultimately
  show "predict env self X True =
        Inr (map (\<lambda>i. arith_mean (map (\<lambda>j. np_add (np_neg (nn j ! i)) (nd j ! i))
                                   [0..<length clfs]))
               [0..<length X])"
    using predict_sum[OF assms(1,2,3), of env True X ?c] by simp
qed

text \<open>The demo ensemble of two entries, built by \<^verbatim>\<open>fit\<close>, on two points. Both
  classifiers score one half. The densities are 2 and 1 for the first entry, 1 and 2 for
  the second: the ratios 2 and 1/2 have the mean 5/4, their logarithms the mean 0.\<close>

theorem predict_mean_witness:
  "fit demo_env
     (demo_ratio (Classifier (Plain 3)) (CvOther [([0, 1], [2, 3, 4]), ([0, 1], [3, 4, 5])]))
     (Some [[0], [1], [2], [3], [4], [5]]) (Some [0, 1, 0, 0, 1, 1]) None None None =
     Returned demo_fitted \<and>
   predict demo_env demo_fitted [[7], [8]] False = Inr [Fin (5 / 4), Fin (5 / 4)] \<and>
   predict demo_env demo_fitted [[7], [8]] True = Inr [Fin 0, Fin 0]"
proof -
  let ?clfs = "[Plain 2, Plain 2 :: (nat, nat) classifier]"
  let ?cals = "[(Some [1 / 2, 1 / 2], Some [1 / 2]), (Some [1 / 2], Some [1 / 2, 1 / 2 :: real])]"
  let ?X = "[[7], [8 :: real]]"
  let ?p = "\<lambda>j :: nat. [1 / 2, 1 / 2 :: real]"
  let ?pn = "\<lambda>j :: nat. if j = 0 then [Fin 2, Fin 2] else [Fin 1, Fin 1]"
  let ?pd = "\<lambda>j :: nat. if j = 0 then [Fin 1, Fin 1] else [Fin 2, Fin 2]"
  let ?nn = "\<lambda>j :: nat. if j = 0 then [Fin (- ln 2), Fin (- ln 2)] else [Fin 0, Fin 0]"
  let ?nd = "\<lambda>j :: nat. if j = 0 then [Fin 0, Fin 0] else [Fin (- ln 2), Fin (- ln 2)]"
  have f: "fit demo_env
     (demo_ratio (Classifier (Plain 3)) (CvOther [([0, 1], [2, 3, 4]), ([0, 1], [3, 4, 5])]))
     (Some [[0], [1], [2], [3], [4], [5]]) (Some [0, 1, 0, 0, 1, 1]) None None None =
     Returned demo_fitted"
    by (simp add: fit_def Let_def fit_fold_def calibrate_pair_def class_scores_def
        check_calibration_def append_entry_def demo_ratio_def demo_env_def fancy_index_def
        boolean_index_def column0_def reshape_col_def demo_fitted_def)
  have h1: "classifiers_' demo_fitted = Some ?clfs" "calibrators_' demo_fitted = Some ?cals"
    "length ?cals = length ?clfs"
    by (simp_all add: demo_fitted_def)
  have h2: "\<forall>j<length ?clfs. \<exists>P. classifier_predict_proba demo_env (?clfs ! j) ?X = Inr P \<and>
      column0 P = Inr (?p j)"
    by (simp add: All_less_Suc demo_env_def column0_def)
  have h3: "\<forall>j<length ?clfs.
      cal_pdf demo_env (fst (?cals ! j)) (reshape_col (?p j)) = Inr (?pn j) \<and>
      cal_pdf demo_env (snd (?cals ! j)) (reshape_col (?p j)) = Inr (?pd j) \<and>
      length (?pn j) = length ?X \<and> length (?pd j) = length ?X"
    by (simp add: All_less_Suc demo_env_def reshape_col_def)
  have h4: "\<forall>j<length ?clfs.
      cal_nnlf demo_env (fst (?cals ! j)) (reshape_col (?p j)) = Inr (?nn j) \<and>
      cal_nnlf demo_env (snd (?cals ! j)) (reshape_col (?p j)) = Inr (?nd j) \<and>
      length (?nn j) = length ?X \<and> length (?nd j) = length ?X"
    by (simp add: All_less_Suc demo_env_def reshape_col_def)
  note t = predict_mean[of demo_fitted ?clfs ?cals demo_env ?X ?p ?pn ?pd ?nn ?nd,
      OF h1 h2]
  have a: "predict demo_env demo_fitted ?X False = Inr [Fin (5 / 4), Fin (5 / 4)]"
    using t[THEN conjunct1, THEN mp, OF h3] by (simp add: arith_mean_def upt_rec)
  have b: "predict demo_env demo_fitted ?X True = Inr [Fin 0, Fin 0]"
    using t[THEN conjunct2, THEN mp, OF h4] by (simp add: arith_mean_def upt_rec)
  from f a b show ?thesis by blast
qed

lemma np_log_ratio:
  assumes "0 \<le> x" "x \<noteq> 0" "0 \<le> z" "z \<noteq> 0"
  shows "np_add (np_neg (np_neg (np_log (Fin x)))) (np_neg (np_log (Fin z))) =
           np_log (np_div (Fin x) (Fin z))"
    and "np_exp (np_log (np_div (Fin x) (Fin z))) = np_div (Fin x) (Fin z)"
    and "\<exists>q. np_div (Fin x) (Fin z) = Fin q \<and> 0 < q"
proof -
  from assms have p: "0 < x" "0 < z" by simp_all
  then have q: "0 < x / z" by simp
  from p q show "np_add (np_neg (np_neg (np_log (Fin x)))) (np_neg (np_log (Fin z))) =
      np_log (np_div (Fin x) (Fin z))"
    by (simp add: ln_divide_pos)
  from p q show "np_exp (np_log (np_div (Fin x) (Fin z))) = np_div (Fin x) (Fin z)"
    by simp
  from p q show "\<exists>q. np_div (Fin x) (Fin z) = Fin q \<and> 0 < q" by simp
qed

lemma single_entry_predict:
  assumes "classifiers_' self = Some [clf]" "calibrators_' self = Some [(kn, kd)]"
    and "contribution env lg X (clf, kn, kd) = Inr c" "length c = length X"
  shows "predict env self X lg =
           Inr (map (\<lambda>v. np_div (np_add (Fin 0) v) (Fin 1)) c)"
  using assms
  by (simp add: predict_def iadd_same_length zip_replicate1 comp_def)

text \<open>
  Claim C9. Take one entry of an ensemble and the scores \<open>p\<close> of its classifier on \<open>X\<close>,
  and calibrators whose \<^verbatim>\<open>pdf(p)\<close> gives one density per point, each defined (a real
  number), nonnegative as a density is, and not zero, and whose \<^verbatim>\<open>nnlf(p)\<close> is
  \<^verbatim>\<open>-log(pdf(p))\<close>. Then the entry's contribution with \<^verbatim>\<open>log=True\<close> is the logarithm
  of its contribution with \<^verbatim>\<open>log=False\<close>; and if the ensemble has this entry only,
  both calls of \<^verbatim>\<open>predict\<close> return, and the exponential of the result with
  \<^verbatim>\<open>log=True\<close> is the result with \<^verbatim>\<open>log=False\<close>.
\<close>

theorem predict_log_consistent:
  assumes "classifier_predict_proba env clf X = Inr P" and "column0 P = Inr p"
    and "cal_pdf env kn (reshape_col p) = Inr a" and "cal_pdf env kd (reshape_col p) = Inr b"
    and "length a = length X" and "length b = length X"
    and "cal_nnlf env kn (reshape_col p) = Inr (map (\<lambda>v. np_neg (np_log v)) a)"
    and "cal_nnlf env kd (reshape_col p) = Inr (map (\<lambda>v. np_neg (np_log v)) b)"
    and "\<forall>v\<in>set (a @ b). \<exists>x. v = Fin x \<and> 0 \<le> x \<and> x \<noteq> 0"
  shows "\<exists>cl cn. contribution env True X (clf, kn, kd) = Inr cl \<and>
           contribution env False X (clf, kn, kd) = Inr cn \<and>
           cn = map (\<lambda>(x, y). np_div x y) (zip a b) \<and>
           cl = map np_log cn \<and>
           (classifiers_' self = Some [clf] \<and> calibrators_' self = Some [(kn, kd)] \<longrightarrow>
              (\<exists>rl rn. predict env self X True = Inr rl \<and>
                 predict env self X False = Inr rn \<and> map np_exp rl = rn))"
proof -
  let ?cn = "map (\<lambda>(x, y). np_div x y) (zip a b)"
  let ?cl = "map (\<lambda>(x, y). np_add (np_neg x) y)
      (zip (map (\<lambda>v. np_neg (np_log v)) a) (map (\<lambda>v. np_neg (np_log v)) b))"
  have ab: "length a = length b" using assms(5,6) by simp
  have cn: "contribution env False X (clf, kn, kd) = Inr ?cn"
    using contribution_pdf[OF assms(1,2,3,4) ab] .
  have cl0: "contribution env True X (clf, kn, kd) = Inr ?cl"
    using contribution_nnlf[OF assms(1,2,7,8)] ab by simp
  have pos: "\<And>i. i < length X \<Longrightarrow>
      \<exists>x z. a ! i = Fin x \<and> b ! i = Fin z \<and> 0 \<le> x \<and> x \<noteq> 0 \<and> 0 \<le> z \<and> z \<noteq> 0"
  proof -
    fix i assume i: "i < length X"
    with assms(5,6) have "a ! i \<in> set (a @ b)" "b ! i \<in> set (a @ b)" by simp_all
    with assms(9) show
      "\<exists>x z. a ! i = Fin x \<and> b ! i = Fin z \<and> 0 \<le> x \<and> x \<noteq> 0 \<and> 0 \<le> z \<and> z \<noteq> 0"
      by blast
  qed
  have cl: "?cl = map np_log ?cn"
  proof (rule nth_equalityI)
    show "length ?cl = length (map np_log ?cn)" by simp
  next
    fix i assume "i < length ?cl"
    then have i: "i < length X" using assms(5,6) by simp
    from pos[OF i] obtain x z where
      "a ! i = Fin x" "b ! i = Fin z" "0 \<le> x" "x \<noteq> 0" "0 \<le> z" "z \<noteq> 0" by blast
    with i assms(5,6) np_log_ratio(1)[of x z] show "?cl ! i = map np_log ?cn ! i" by simp
  qed
  have single: "classifiers_' self = Some [clf] \<and> calibrators_' self = Some [(kn, kd)] \<longrightarrow>
      (\<exists>rl rn. predict env self X True = Inr rl \<and> predict env self X False = Inr rn \<and>
         map np_exp rl = rn)"
  proof
    assume s: "classifiers_' self = Some [clf] \<and> calibrators_' self = Some [(kn, kd)]"
    let ?m = "\<lambda>v. np_div (np_add (Fin 0) v) (Fin 1)"
    have ln: "length ?cn = length X" "length (map np_log ?cn) = length X"
      using assms(5,6) by simp_all
    have rn: "predict env self X False = Inr (map ?m ?cn)"
      using single_entry_predict[of self clf kn kd env False X ?cn] s cn ln by simp
    have rl: "predict env self X True = Inr (map ?m (map np_log ?cn))"
      using single_entry_predict[of self clf kn kd env True X "map np_log ?cn"] s cl0 cl ln
      by simp
    have "map np_exp (map ?m (map np_log ?cn)) = map ?m ?cn"
    proof (rule nth_equalityI)
      show "length (map np_exp (map ?m (map np_log ?cn))) = length (map ?m ?cn)" by simp
    next
      fix i assume "i < length (map np_exp (map ?m (map np_log ?cn)))"
      then have i: "i < length X" using assms(5,6) by simp
      from pos[OF i] obtain x z where
        xz: "a ! i = Fin x" "b ! i = Fin z" "0 \<le> x" "x \<noteq> 0" "0 \<le> z" "z \<noteq> 0" by blast
      from np_log_ratio(3)[OF xz(3,4,5,6)] obtain q where
        q: "np_div (Fin x) (Fin z) = Fin q" "0 < q" by blast
      with i assms(5,6) xz
      show "map np_exp (map ?m (map np_log ?cn)) ! i = map ?m ?cn ! i" by simp
    qed
    with rn rl show "\<exists>rl rn. predict env self X True = Inr rl \<and>
        predict env self X False = Inr rn \<and> map np_exp rl = rn"
      by blast
  qed
  from cn cl0 cl single show ?thesis by simp
qed

text \<open>The one-entry demo ensemble on one point: the densities are 2 and 1, the values of
  \<^verbatim>\<open>nnlf\<close> are \<open>- ln 2\<close> and \<open>- ln 1\<close>; the ratio is 2, the log ratio \<open>ln 2\<close>.\<close>

theorem predict_log_consistent_witness:
  "classifier_predict_proba demo_env (Plain 2) [[7]] = Inr [[1 / 2, 1 / 2]] \<and>
   cal_pdf demo_env (Some [1 / 2, 1 / 2]) (reshape_col [1 / 2]) = Inr [Fin 2] \<and>
   cal_pdf demo_env (Some [1 / 2]) (reshape_col [1 / 2]) = Inr [Fin 1] \<and>
   cal_nnlf demo_env (Some [1 / 2, 1 / 2]) (reshape_col [1 / 2]) =
     Inr (map (\<lambda>v. np_neg (np_log v)) [Fin 2]) \<and>
   cal_nnlf demo_env (Some [1 / 2]) (reshape_col [1 / 2]) =
     Inr (map (\<lambda>v. np_neg (np_log v)) [Fin 1]) \<and>
   contribution demo_env False [[7]] (Plain 2, Some [1 / 2, 1 / 2], Some [1 / 2]) =
     Inr [Fin 2] \<and>
   contribution demo_env True [[7]] (Plain 2, Some [1 / 2, 1 / 2], Some [1 / 2]) =
     Inr [Fin (ln 2)] \<and>
   (\<exists>rl rn. predict demo_env demo_single [[7]] True = Inr rl \<and>
      predict demo_env demo_single [[7]] False = Inr rn \<and> map np_exp rl = rn)"
proof -
  let ?X = "[[7 :: real]]" and ?kn = "Some [1 / 2, 1 / 2 :: real]" and ?kd = "Some [1 / 2 :: real]"
  have h1: "classifier_predict_proba demo_env (Plain 2) ?X = Inr [[1 / 2, 1 / 2]]"
    "column0 [[1 / 2, 1 / 2]] = Inr [1 / 2]"
    by (simp_all add: demo_env_def column0_def)
  have h2: "cal_pdf demo_env ?kn (reshape_col [1 / 2]) = Inr [Fin 2]"
    "cal_pdf demo_env ?kd (reshape_col [1 / 2]) = Inr [Fin 1]"
    "length [Fin 2] = length ?X" "length [Fin 1] = length ?X"
    by (simp_all add: demo_env_def reshape_col_def)
  have h3: "cal_nnlf demo_env ?kn (reshape_col [1 / 2]) =
        Inr (map (\<lambda>v. np_neg (np_log v)) [Fin 2])"
    "cal_nnlf demo_env ?kd (reshape_col [1 / 2]) = Inr (map (\<lambda>v. np_neg (np_log v)) [Fin 1])"
    by (simp_all add: demo_env_def reshape_col_def)
  have h4: "\<forall>v\<in>set ([Fin 2] @ [Fin 1]). \<exists>x. v = Fin x \<and> 0 \<le> x \<and> x \<noteq> 0" by simp
  have s: "classifiers_' demo_single = Some [Plain 2] \<and>
      calibrators_' demo_single = Some [(?kn, ?kd)]"
    by (simp add: demo_single_def)
  from predict_log_consistent[of demo_env "Plain 2" ?X _ _ ?kn _ ?kd _ demo_single,
      OF h1 h2 h3 h4] s
  have "contribution demo_env False ?X (Plain 2, ?kn, ?kd) = Inr [Fin 2] \<and>
      contribution demo_env True ?X (Plain 2, ?kn, ?kd) = Inr [Fin (ln 2)] \<and>
      (\<exists>rl rn. predict demo_env demo_single ?X True = Inr rl \<and>
         predict demo_env demo_single ?X False = Inr rn \<and> map np_exp rl = rn)"
    by auto
  with h1 h2 h3 show ?thesis by blast
qed

end
